theory Spec2Isabelle
  imports Complex_Main
begin

section \<open>Text and regular expressions\<close>

text \<open>
  Python strings are modelled as \<^typ>\<open>string\<close>: ASCII text, one \<^typ>\<open>char\<close> per
  character (a character beyond ASCII stands as the bytes of its UTF-8 encoding, none of
  which is a digit, a space or a word character here). \<^verbatim>\<open>Optional[str]\<close> is
  \<^typ>\<open>string option\<close>.
\<close>

text \<open>Python truthiness of an \<^verbatim>\<open>Optional[str]\<close>: \<^verbatim>\<open>None\<close> and the empty string are false.\<close>

definition truthy :: "string option \<Rightarrow> bool" where
  "truthy v = (case v of None \<Rightarrow> False | Some s \<Rightarrow> s \<noteq> [])"

definition str_of :: "string option \<Rightarrow> string" where
  "str_of v = (case v of None \<Rightarrow> [] | Some s \<Rightarrow> s)"

text \<open>\<^verbatim>\<open>str.lower()\<close> on ASCII text.\<close>

definition lower_char :: "char \<Rightarrow> char" where
  "lower_char c =
     (let n = (of_char c :: nat) in if 65 \<le> n \<and> n \<le> 90 then char_of (n + 32) else c)"

definition lower :: "string \<Rightarrow> string" where
  "lower s = map lower_char s"

text \<open>The character classes \<^verbatim>\<open>\d\<close>, \<^verbatim>\<open>\s\<close> and \<^verbatim>\<open>\w\<close> of Python's \<^verbatim>\<open>re\<close> on ASCII.\<close>

definition is_digit :: "char \<Rightarrow> bool" where
  "is_digit c = (let n = (of_char c :: nat) in 48 \<le> n \<and> n \<le> 57)"

definition is_space :: "char \<Rightarrow> bool" where
  "is_space c = (let n = (of_char c :: nat) in (9 \<le> n \<and> n \<le> 13) \<or> (28 \<le> n \<and> n \<le> 32))"

definition is_word :: "char \<Rightarrow> bool" where
  "is_word c =
     (let n = (of_char c :: nat) in
      (48 \<le> n \<and> n \<le> 57) \<or> (65 \<le> n \<and> n \<le> 90) \<or> (97 \<le> n \<and> n \<le> 122) \<or> n = 95)"

text \<open>\<^verbatim>\<open>sub in s\<close> on strings.\<close>

fun starts_with :: "string \<Rightarrow> string \<Rightarrow> bool" where
  "starts_with [] s = True"
| "starts_with (a # as) [] = False"
| "starts_with (a # as) (c # cs) = (a = c \<and> starts_with as cs)"

fun contains :: "string \<Rightarrow> string \<Rightarrow> bool" where
  "contains sub [] = (sub = [])"
| "contains sub (c # cs) = (starts_with sub (c # cs) \<or> contains sub cs)"

text \<open>\<^verbatim>\<open>any(kw in s for kw in kws)\<close>.\<close>

definition any_in :: "string list \<Rightarrow> string \<Rightarrow> bool" where
  "any_in kws s = list_ex (\<lambda>kw. contains kw s) kws"

subsection \<open>A backtracking matcher for the patterns of the program\<close>

text \<open>
  The patterns the program hands to \<^verbatim>\<open>re\<close> are built from: a literal character, the
  classes \<^verbatim>\<open>\d\<close>, \<^verbatim>\<open>\D\<close>, \<^verbatim>\<open>\s\<close>, \<^verbatim>\<open>.\<close>, a bracket set of characters, \<^verbatim>\<open>[0-9\s]\<close>;
  the empty pattern, \<^verbatim>\<open>\b\<close>, \<^verbatim>\<open>$\<close>, concatenation, alternation, the greedy and the
  lazy star, and a numbered capture group.
\<close>

datatype atom = Chr char | Digit | NonDigit | Space | Dot | OneOf string | DigitOrSpace

datatype re =
  Atom atom | Eps | WordB | Eos | Seq re re | Alt re re | Star re | LazyStar re | Group nat re

text \<open>
  A matcher state: the character before the current position (none at the start of the
  text), the text from the current position on, and the captures made so far (latest first).
\<close>

type_synonym mstate = "char option \<times> string \<times> (nat \<times> string) list"

text \<open>The flag \<open>ic\<close> is \<^verbatim>\<open>re.IGNORECASE\<close>.\<close>

fun atom_ok :: "bool \<Rightarrow> atom \<Rightarrow> char \<Rightarrow> bool" where
  "atom_ok ic (Chr a) c = (if ic then lower_char a = lower_char c else a = c)"
| "atom_ok ic Digit c = is_digit c"
| "atom_ok ic NonDigit c = (\<not> is_digit c)"
| "atom_ok ic Space c = is_space c"
| "atom_ok ic Dot c = (c \<noteq> CHR 0x0A)"
| "atom_ok ic (OneOf cs) c = (c \<in> set cs)"
| "atom_ok ic DigitOrSpace c = (is_digit c \<or> is_space c)"

definition word_opt :: "char option \<Rightarrow> bool" where
  "word_opt p = (case p of None \<Rightarrow> False | Some c \<Rightarrow> is_word c)"

text \<open>\<^verbatim>\<open>\b\<close>: exactly one of the two neighbours of the position is a word character.\<close>

definition at_boundary :: "char option \<Rightarrow> string \<Rightarrow> bool" where
  "at_boundary p s = (word_opt p \<noteq> word_opt (case s of [] \<Rightarrow> None | c # _ \<Rightarrow> Some c))"

text \<open>
  \<open>ms ic r st\<close> lists the states in which a match of \<open>r\<close> begun in \<open>st\<close> can end, in the
  order in which the backtracking matcher tries them: the left alternative before the
  right, a greedy star one more round before stopping, a lazy star stopping before one
  more round. A round of a star that consumes nothing is not repeated. \<^verbatim>\<open>$\<close> holds at the
  end of the text and before a final newline.
\<close>

fun ms :: "bool \<Rightarrow> re \<Rightarrow> mstate \<Rightarrow> mstate list" where
  "ms ic (Atom a) (p, s, g) =
     (case s of [] \<Rightarrow> [] | c # cs \<Rightarrow> if atom_ok ic a c then [(Some c, cs, g)] else [])"
| "ms ic Eps st = [st]"
| "ms ic WordB (p, s, g) = (if at_boundary p s then [(p, s, g)] else [])"
| "ms ic Eos (p, s, g) = (if s = [] \<or> s = [CHR 0x0A] then [(p, s, g)] else [])"
| "ms ic (Seq r1 r2) st = concat (map (ms ic r2) (ms ic r1 st))"
| "ms ic (Alt r1 r2) st = ms ic r1 st @ ms ic r2 st"
| "ms ic (Star r) st =
     concat (map (\<lambda>st'. if length (fst (snd st')) < length (fst (snd st))
                         then ms ic (Star r) st' else [])
                 (ms ic r st)) @ [st]"
| "ms ic (LazyStar r) st =
     st # concat (map (\<lambda>st'. if length (fst (snd st')) < length (fst (snd st))
                              then ms ic (LazyStar r) st' else [])
                      (ms ic r st))"
| "ms ic (Group n r) st =
     map (\<lambda>st'. (fst st', fst (snd st'),
                  (n, take (length (fst (snd st)) - length (fst (snd st'))) (fst (snd st)))
                  # snd (snd st')))
         (ms ic r st)"

text \<open>Derived forms: \<^verbatim>\<open>r+\<close>, \<^verbatim>\<open>r+?\<close>, \<^verbatim>\<open>r?\<close>, a literal word, \<^verbatim>\<open>a|b|c\<close>, \<^verbatim>\<open>abc\<close>, \<^verbatim>\<open>r{m,n}\<close>.\<close>

definition Plus :: "re \<Rightarrow> re" where
  "Plus r = Seq r (Star r)"

definition LazyPlus :: "re \<Rightarrow> re" where
  "LazyPlus r = Seq r (LazyStar r)"

definition Opt :: "re \<Rightarrow> re" where
  "Opt r = Alt r Eps"

fun lit :: "string \<Rightarrow> re" where
  "lit [] = Eps"
| "lit [c] = Atom (Chr c)"
| "lit (c # cs) = Seq (Atom (Chr c)) (lit cs)"

fun alts :: "re list \<Rightarrow> re" where
  "alts [] = Eps"
| "alts [r] = r"
| "alts (r # rs) = Alt r (alts rs)"

fun seqs :: "re list \<Rightarrow> re" where
  "seqs [] = Eps"
| "seqs [r] = r"
| "seqs (r # rs) = Seq r (seqs rs)"

fun upto_re :: "nat \<Rightarrow> re \<Rightarrow> re" where
  "upto_re 0 r = Eps"
| "upto_re (Suc k) r = Opt (Seq r (upto_re k r))"

definition rep :: "nat \<Rightarrow> nat \<Rightarrow> re \<Rightarrow> re" where
  "rep m n r = seqs (replicate m r @ [upto_re (n - m) r])"

text \<open>
  \<^verbatim>\<open>re.search\<close>: the first match at the leftmost position that has one; the result is the
  text from the start of the match on, and the state at its end. \<^verbatim>\<open>re.match\<close> tries the
  start of the text only. \<open>group m n\<close> is \<^verbatim>\<open>m.group(n)\<close>.
\<close>

fun re_search_from :: "bool \<Rightarrow> re \<Rightarrow> char option \<Rightarrow> string \<Rightarrow> (string \<times> mstate) option" where
  "re_search_from ic r p [] =
     (case ms ic r (p, [], []) of [] \<Rightarrow> None | m # _ \<Rightarrow> Some ([], m))"
| "re_search_from ic r p (c # cs) =
     (case ms ic r (p, c # cs, []) of
        m # _ \<Rightarrow> Some (c # cs, m)
      | [] \<Rightarrow> re_search_from ic r (Some c) cs)"

definition re_search :: "bool \<Rightarrow> re \<Rightarrow> string \<Rightarrow> (string \<times> mstate) option" where
  "re_search ic r text = re_search_from ic r None text"

definition re_found :: "bool \<Rightarrow> re \<Rightarrow> string \<Rightarrow> bool" where
  "re_found ic r text = (re_search ic r text \<noteq> None)"

definition re_match :: "bool \<Rightarrow> re \<Rightarrow> string \<Rightarrow> mstate option" where
  "re_match ic r text = (case ms ic r (None, text, []) of [] \<Rightarrow> None | m # _ \<Rightarrow> Some m)"

definition group :: "mstate \<Rightarrow> nat \<Rightarrow> string" where
  "group m n = (case map_of (snd (snd m)) n of None \<Rightarrow> [] | Some t \<Rightarrow> t)"

text \<open>
  \<^verbatim>\<open>re.sub\<close> and \<^verbatim>\<open>re.findall\<close> scan from left to right: at a position with a match, the
  matched text is replaced (collected) and the scan goes on behind it; elsewhere the
  character is copied (skipped). The replacement is a function of the matched text and of
  the end state, which holds the groups. No pattern of the program matches the empty
  string, and a match that consumes nothing is passed over.
\<close>

fun re_sub_from ::
  "bool \<Rightarrow> re \<Rightarrow> (string \<Rightarrow> mstate \<Rightarrow> string) \<Rightarrow> char option \<Rightarrow> string \<Rightarrow> string" where
  "re_sub_from ic r repl p [] = []"
| "re_sub_from ic r repl p (c # cs) =
     (case ms ic r (p, c # cs, []) of
        [] \<Rightarrow> c # re_sub_from ic r repl (Some c) cs
      | m # _ \<Rightarrow>
          if length (fst (snd m)) < length (c # cs)
          then repl (take (length (c # cs) - length (fst (snd m))) (c # cs)) m
               @ re_sub_from ic r repl (fst m) (fst (snd m))
          else c # re_sub_from ic r repl (Some c) cs)"

definition re_sub :: "bool \<Rightarrow> re \<Rightarrow> (string \<Rightarrow> mstate \<Rightarrow> string) \<Rightarrow> string \<Rightarrow> string" where
  "re_sub ic r repl text = re_sub_from ic r repl None text"

fun re_findall_from :: "bool \<Rightarrow> re \<Rightarrow> char option \<Rightarrow> string \<Rightarrow> string list" where
  "re_findall_from ic r p [] = []"
| "re_findall_from ic r p (c # cs) =
     (case ms ic r (p, c # cs, []) of
        [] \<Rightarrow> re_findall_from ic r (Some c) cs
      | m # _ \<Rightarrow>
          if length (fst (snd m)) < length (c # cs)
          then take (length (c # cs) - length (fst (snd m))) (c # cs)
               # re_findall_from ic r (fst m) (fst (snd m))
          else re_findall_from ic r (Some c) cs)"

definition re_findall :: "bool \<Rightarrow> re \<Rightarrow> string \<Rightarrow> string list" where
  "re_findall ic r text = re_findall_from ic r None text"

subsection \<open>Spoken numbers (\<^verbatim>\<open>core/voice_utils.py\<close>)\<close>

definition WORD_TO_DIGIT :: "(string \<times> string) list" where
  "WORD_TO_DIGIT =
    [(''zero'', ''0''), (''oh'', ''0''), (''o'', ''0''),
     (''one'', ''1''), (''won'', ''1''),
     (''two'', ''2''), (''to'', ''2''), (''too'', ''2''),
     (''three'', ''3''), (''tree'', ''3''),
     (''four'', ''4''), (''for'', ''4''), (''fore'', ''4''),
     (''five'', ''5''),
     (''six'', ''6''), (''sex'', ''6''),
     (''seven'', ''7''),
     (''eight'', ''8''), (''ate'', ''8''),
     (''nine'', ''9''), (''niner'', ''9''),
     (''thousand'', ''000''),
     (''hundred'', ''00'')]"

text \<open>
  \<^verbatim>\<open>normalize_spoken_digits\<close>: lower the text, then one \<^verbatim>\<open>re.sub\<close> of \<^verbatim>\<open>\bword\b\<close> per entry
  of the table, in the table's order.
\<close>

definition normalize_spoken_digits :: "string \<Rightarrow> string" where
  "normalize_spoken_digits text =
     (if text = [] then text
      else fold (\<lambda>wd normalized.
                   re_sub False (seqs [WordB, lit (fst wd), WordB]) (\<lambda>_ _. snd wd) normalized)
                WORD_TO_DIGIT (lower text))"

subsection \<open>Credential extraction and redaction (\<^verbatim>\<open>core/security.py\<close>)\<close>

text \<open>\<^verbatim>\<open>\b\d{4}\b\<close>\<close>

definition four_digits_re :: re where
  "four_digits_re = seqs [WordB, Atom Digit, Atom Digit, Atom Digit, Atom Digit, WordB]"

definition redact_pin :: "string \<Rightarrow> string" where
  "redact_pin text = re_sub False four_digits_re (\<lambda>_ _. ''****'') text"

text \<open>\<^verbatim>\<open>(customer id|customer_id|cust id)\<close> and \<^verbatim>\<open>\s*[:#-]?\s*\<close>\<close>

definition customer_label_alts :: re where
  "customer_label_alts = alts (map lit [''customer id'', ''customer_id'', ''cust id''])"

definition sep_re :: re where
  "sep_re = seqs [Star (Atom Space), Opt (Atom (OneOf '':#-'')), Star (Atom Space)]"

text \<open>\<^verbatim>\<open>\b(customer id|customer_id|cust id)\s*[:#-]?\s*(\d{4,10})\b\<close>\<close>

definition redact_customer_ids_re :: re where
  "redact_customer_ids_re =
     seqs [WordB, Group 1 customer_label_alts, sep_re, Group 2 (rep 4 10 (Atom Digit)), WordB]"

definition redact_customer_ids :: "string \<Rightarrow> string" where
  "redact_customer_ids text =
     re_sub True redact_customer_ids_re (\<lambda>_ m. group m 1 @ '' ****'') text"

text \<open>\<^verbatim>\<open>mask_long_numbers\<close> with the pattern \<^verbatim>\<open>\b\d{8,16}\b\<close>.\<close>

definition mask_long_numbers :: "string \<Rightarrow> string" where
  "mask_long_numbers text =
     re_sub False (seqs [WordB, rep 8 16 (Atom Digit), WordB])
       (\<lambda>num _. if length num \<le> 4 then ''****''
                else replicate (length num - 4) CHR ''*'' @ drop (length num - 4) num)
       text"

text \<open>\<^verbatim>\<open>(?:\d\D*){4}\<close> and \<^verbatim>\<open>\bpin\b|\bping\b\<close>\<close>

definition four_spread_digits :: re where
  "four_spread_digits = rep 4 4 (Seq (Atom Digit) (Star (Atom NonDigit)))"

definition pin_label :: re where
  "pin_label = Alt (seqs [WordB, lit ''pin'', WordB]) (seqs [WordB, lit ''ping'', WordB])"

definition redact_sensitive_text :: "string \<Rightarrow> string" where
  "redact_sensitive_text text0 =
     (if text0 = [] then text0
      else
        let text = re_sub True pin_label (\<lambda>_ _. ''PIN'') text0;
            text = re_sub True (seqs [WordB, lit ''PIN'', WordB, sep_re, four_spread_digits])
                     (\<lambda>_ _. ''PIN ****'') text;
            text = re_sub True (seqs [WordB, Group 1 customer_label_alts, WordB, sep_re,
                                      four_spread_digits])
                     (\<lambda>_ m. group m 1 @ '' ****'') text;
            text = redact_pin text;
            text = redact_customer_ids text;
            text = mask_long_numbers text
        in text)"

text \<open>
  The pattern of \<^verbatim>\<open>_digits_after_label\<close>:
  \<^verbatim>\<open>\s*(?:is\s+)?([0-9\s]+?)(?:[.,?!]*(?:\s+(?:and|pin|customer|id|cust|my|the|a)\b|$))\<close>
\<close>

definition digit_re :: re where
  "digit_re =
     seqs [Star (Atom Space),
           Opt (Seq (lit ''is'') (Plus (Atom Space))),
           Group 1 (LazyPlus (Atom DigitOrSpace)),
           Star (Atom (OneOf ''.,?!'')),
           Alt (seqs [Plus (Atom Space),
                      alts (map lit [''and'', ''pin'', ''customer'', ''id'', ''cust'', ''my'',
                                     ''the'', ''a'']),
                      WordB])
               Eos]"

definition digits_after_label :: "string \<Rightarrow> re \<Rightarrow> string option" where
  "digits_after_label text label_pattern =
     (case re_search True label_pattern text of
        None \<Rightarrow> None
      | Some (_, m) \<Rightarrow>
          (let after = fst (snd m) in
           case re_match True digit_re after of
             None \<Rightarrow> None
           | Some dm \<Rightarrow>
               (let digits = filter is_digit (group dm 1)
                in if digits \<noteq> [] then Some (take 10 digits) else None)))"

text \<open>\<^verbatim>\<open>\b(customer id|customer_id|cust id|id)\b\<close>\<close>

definition customer_id_label :: re where
  "customer_id_label =
     seqs [WordB,
           Group 1 (alts (map lit [''customer id'', ''customer_id'', ''cust id'', ''id''])),
           WordB]"

text \<open>\<^verbatim>\<open>\bid\s+(?:is\s+)?(\d+).*?\bpin\s+(?:is\s+)?(\d+)\<close>\<close>

definition id_pin_re :: re where
  "id_pin_re =
     seqs [WordB, lit ''id'', Plus (Atom Space), Opt (Seq (lit ''is'') (Plus (Atom Space))),
           Group 1 (Plus (Atom Digit)), LazyStar (Atom Dot),
           WordB, lit ''pin'', Plus (Atom Space), Opt (Seq (lit ''is'') (Plus (Atom Space))),
           Group 2 (Plus (Atom Digit))]"

text \<open>
  \<^verbatim>\<open>extract_credentials\<close>: labelled spans first, then the \<^verbatim>\<open>id ... pin ...\<close> pattern, then
  the standalone four-digit groups. The argument \<^verbatim>\<open>None\<close> behaves as the empty string.
\<close>

definition extract_credentials :: "string \<Rightarrow> string option \<times> string option" where
  "extract_credentials text0 =
     (if text0 = [] then (None, None)
      else
        let text = normalize_spoken_digits text0;
            customer_id = digits_after_label text customer_id_label;
            pin = digits_after_label text pin_label;
            pin = (if truthy pin \<and> length (str_of pin) > 4
                   then Some (take 4 (str_of pin)) else pin);
            (customer_id, pin) =
              (if \<not> truthy customer_id \<or> \<not> truthy pin then
                 (case re_search True id_pin_re text of
                    None \<Rightarrow> (customer_id, pin)
                  | Some (_, m) \<Rightarrow>
                      (if \<not> truthy customer_id then Some (group m 1) else customer_id,
                       if \<not> truthy pin
                       then (let p = group m 2 in if length p > 4 then Some (take 4 p) else Some p)
                       else pin))
               else (customer_id, pin))
        in
        if \<not> truthy customer_id \<or> \<not> truthy pin then
          (let sequences = re_findall False four_digits_re text;
               sequences = (if truthy pin \<and> str_of pin \<in> set sequences
                            then remove1 (str_of pin) sequences else sequences)
           in
           if sequences \<noteq> [] then
             (if \<not> truthy customer_id then
                (Some (hd sequences),
                 if length sequences > 1 \<and> \<not> truthy pin then Some (sequences ! 1) else pin)
              else if \<not> truthy pin \<and> length sequences > 0 then (customer_id, Some (hd sequences))
              else (customer_id, pin))
           else (customer_id, pin))
        else (customer_id, pin))"

definition remove_credentials :: "string \<Rightarrow> string" where
  "remove_credentials text0 =
     (if text0 = [] then text0
      else
        let text = re_sub True (seqs [WordB, Group 1 customer_label_alts, WordB]) (\<lambda>_ _. []) text0;
            text = re_sub False four_digits_re (\<lambda>_ _. []) text;
            text = re_sub True pin_label (\<lambda>_ _. []) text
        in text)"

section \<open>Vaulta dialogue orchestrator: sessions and the authentication gate\<close>

text \<open>
  The model follows \<^verbatim>\<open>apps/api/app\<close>. Python integers are \<^typ>\<open>int\<close>, and the
  \<^verbatim>\<open>time.time()\<close> stamps are read as real numbers.
\<close>

subsection \<open>Data model (\<^verbatim>\<open>services/session_manager.py\<close>, \<^verbatim>\<open>agents/state.py\<close>)\<close>

text \<open>A conversation message: \<^verbatim>\<open>HumanMessage\<close> (type "human") or \<^verbatim>\<open>AIMessage\<close> (type "ai").\<close>

datatype message = HumanMessage string | AIMessage string

text \<open>
  The pending action dictionary as \<^verbatim>\<open>_block_specific_card\<close> builds it:
  keys "type", "card_id", "reason", "description".
\<close>

record pending_action =
  pa_type :: string
  card_id :: string
  reason :: string
  description :: string

text \<open>The dataclass \<^verbatim>\<open>SessionState\<close>.\<close>

record SessionState =
  session_id :: string
  customer_id :: "string option"
  verified :: bool
  created_at :: real
  last_activity :: real
  auth_attempts :: int
  conversation_history :: "message list"
  last_intent_message :: "string option"
  pending_customer_id :: "string option"
  current_flow :: "string option"
  original_intent :: "string option"
  pending_action :: "pending_action option"
  awaiting_confirmation :: bool
  requires_human :: bool
  locked :: bool

text \<open>
  \<^verbatim>\<open>SessionState(session_id=sid)\<close>: every other field takes its default; both time stamps
  are the time of creation.
\<close>

definition new_session :: "string \<Rightarrow> real \<Rightarrow> SessionState" where
  "new_session sid now =
     \<lparr> session_id = sid, customer_id = None, verified = False, created_at = now,
       last_activity = now, auth_attempts = 0, conversation_history = [],
       last_intent_message = None, pending_customer_id = None, current_flow = None,
       original_intent = None, pending_action = None, awaiting_confirmation = False,
       requires_human = False, locked = False \<rparr>"

text \<open>
  The \<^verbatim>\<open>auth\<close> dictionary of \<^verbatim>\<open>_process_auth_attempt\<close>: keys "attempted", "success",
  "remaining_attempts", "locked", "needs_customer_id", "needs_pin".
\<close>

record auth_outcome =
  attempted :: bool
  success :: "bool option"
  remaining_attempts :: "int option"
  auth_locked :: bool
  needs_customer_id :: bool
  needs_pin :: bool

text \<open>\<^verbatim>\<open>Settings.MAX_AUTH_ATTEMPTS\<close>: the default of \<^verbatim>\<open>core/config.py\<close>; the environment may override it.\<close>

definition MAX_AUTH_ATTEMPTS :: int where
  "MAX_AUTH_ATTEMPTS = 3"

subsection \<open>The authentication gate (\<^verbatim>\<open>_process_auth_attempt\<close>, \<^verbatim>\<open>api/vapi_routes.py\<close>)\<close>

text \<open>
  \<^verbatim>\<open>_process_auth_attempt(session, raw_text)\<close> after the call of \<^verbatim>\<open>extract_credentials\<close>:
  the argument \<open>(cid0, pin0)\<close> is the extracted pair. The external collaborator
  \<^verbatim>\<open>verify_identity\<close> is the parameter \<open>verify\<close>, the configured maximum is \<open>M\<close>. The
  function mutates the session in place and returns the \<^verbatim>\<open>auth\<close> dictionary; the model
  returns the session after the call, the dictionary, and the list of calls made to the
  verifier, in order.
\<close>

definition process_auth_pair ::
  "(string \<Rightarrow> string \<Rightarrow> bool) \<Rightarrow> int \<Rightarrow> SessionState \<Rightarrow> string option \<times> string option
     \<Rightarrow> SessionState \<times> auth_outcome \<times> (string \<times> string) list" where
  "process_auth_pair verify M session cp =
    (let auth = \<lparr> attempted = False, success = None, remaining_attempts = None,
                   auth_locked = locked session, needs_customer_id = False,
                   needs_pin = False \<rparr>;
         cid0 = fst cp;
         pin0 = snd cp
     in
     if verified session then (session, auth, [])
     else
       let swap = (truthy (pending_customer_id session) \<and> truthy cid0 \<and> \<not> truthy pin0);
           pin1 = (if swap then cid0 else pin0);
           cid1 = (if swap then pending_customer_id session else cid0)
       in
       if truthy cid1 \<and> \<not> truthy pin1 then
         (session\<lparr>pending_customer_id := cid1\<rparr>, auth\<lparr>needs_pin := True\<rparr>, [])
       else if truthy pin1 \<and> \<not> truthy cid1 \<and> \<not> truthy (pending_customer_id session) then
         (session, auth\<lparr>needs_customer_id := True\<rparr>, [])
       else
         let cid2 = (if truthy pin1 \<and> \<not> truthy cid1 \<and> truthy (pending_customer_id session)
                     then pending_customer_id session else cid1)
         in
         if \<not> (truthy cid2 \<and> truthy pin1) then (session, auth, [])
         else if locked session \<or> M \<le> auth_attempts session then
           (session\<lparr>locked := True\<rparr>,
            auth\<lparr>attempted := True, auth_locked := True, success := Some False\<rparr>, [])
         else if verify (str_of cid2) (str_of pin1) then
           (session\<lparr>verified := True, customer_id := cid2, auth_attempts := 0,
                    pending_customer_id := None\<rparr>,
            auth\<lparr>attempted := True, success := Some True\<rparr>,
            [(str_of cid2, str_of pin1)])
         else
           let attempts' = auth_attempts session + 1;
               remaining = max 0 (M - attempts')
           in
           (session\<lparr>auth_attempts := attempts',
                    locked := (if remaining = 0 then True else locked session)\<rparr>,
            auth\<lparr>attempted := True, success := Some False,
                 remaining_attempts := Some remaining,
                 auth_locked := (if remaining = 0 then True else locked session)\<rparr>,
            [(str_of cid2, str_of pin1)]))"

subsection \<open>The session store (\<^verbatim>\<open>SessionManager\<close>)\<close>

text \<open>
  The dictionary \<^verbatim>\<open>self.sessions\<close> is an insertion-ordered list of key/value pairs with
  distinct keys; \<open>dict_set\<close> is \<^verbatim>\<open>d[k] = v\<close>, \<open>dict_del\<close> is \<^verbatim>\<open>del d[k]\<close> for a
  key that is present, and \<^const>\<open>map_of\<close> is \<^verbatim>\<open>d.get(k)\<close>.
\<close>

fun dict_set :: "'k \<Rightarrow> 'v \<Rightarrow> ('k \<times> 'v) list \<Rightarrow> ('k \<times> 'v) list" where
  "dict_set k v [] = [(k, v)]"
| "dict_set k v (p # ps) = (if fst p = k then (k, v) # ps else p # dict_set k v ps)"

fun dict_del :: "'k \<Rightarrow> ('k \<times> 'v) list \<Rightarrow> ('k \<times> 'v) list" where
  "dict_del k [] = []"
| "dict_del k (p # ps) = (if fst p = k then ps else p # dict_del k ps)"

record SessionManager =
  sessions :: "(string \<times> SessionState) list"
  session_timeout :: int

text \<open>\<^verbatim>\<open>SessionManager()\<close>: no sessions, the default timeout of 300 seconds.\<close>

definition session_manager_init :: SessionManager where
  "session_manager_init = \<lparr> sessions = [], session_timeout = 300 \<rparr>"

text \<open>\<^verbatim>\<open>get_or_create_session\<close> at time \<open>now\<close>; returns the store and the session object.\<close>

definition get_or_create_session ::
  "SessionManager \<Rightarrow> string \<Rightarrow> real \<Rightarrow> SessionManager \<times> SessionState" where
  "get_or_create_session mgr sid now =
     (case map_of (sessions mgr) sid of
        None \<Rightarrow>
          (let s = new_session sid now
           in (mgr\<lparr>sessions := dict_set sid s (sessions mgr)\<rparr>, s))
      | Some s0 \<Rightarrow>
          (let s = s0\<lparr>last_activity := now\<rparr>
           in (mgr\<lparr>sessions := dict_set sid s (sessions mgr)\<rparr>, s)))"

definition get_session :: "SessionManager \<Rightarrow> string \<Rightarrow> SessionState option" where
  "get_session mgr sid = map_of (sessions mgr) sid"

text \<open>
  The keyword arguments of \<^verbatim>\<open>update_session\<close>: \<open>None\<close> is the sentinel \<^verbatim>\<open>_UNSET\<close>
  (the argument was not passed), \<open>Some v\<close> is a value that was passed.
\<close>

record session_update =
  u_verified :: "bool option"
  u_customer_id :: "string option option"
  u_increment_auth_attempts :: bool
  u_current_flow :: "string option option"
  u_original_intent :: "string option option"
  u_pending_action :: "pending_action option option"
  u_awaiting_confirmation :: "bool option"
  u_requires_human :: "bool option"
  u_locked :: "bool option"
  u_conversation_history :: "message list option"
  u_last_intent_message :: "string option option"

definition no_update :: session_update where
  "no_update =
     \<lparr> u_verified = None, u_customer_id = None, u_increment_auth_attempts = False,
       u_current_flow = None, u_original_intent = None, u_pending_action = None,
       u_awaiting_confirmation = None, u_requires_human = None, u_locked = None,
       u_conversation_history = None, u_last_intent_message = None \<rparr>"

definition set_if :: "'a option \<Rightarrow> 'a \<Rightarrow> 'a" where
  "set_if u old = (case u of None \<Rightarrow> old | Some v \<Rightarrow> v)"

definition apply_update :: "session_update \<Rightarrow> real \<Rightarrow> SessionState \<Rightarrow> SessionState" where
  "apply_update u now s =
     s\<lparr> verified := set_if (u_verified u) (verified s),
        customer_id := set_if (u_customer_id u) (customer_id s),
        auth_attempts :=
          (if u_increment_auth_attempts u then auth_attempts s + 1 else auth_attempts s),
        current_flow := set_if (u_current_flow u) (current_flow s),
        original_intent := set_if (u_original_intent u) (original_intent s),
        pending_action := set_if (u_pending_action u) (pending_action s),
        awaiting_confirmation := set_if (u_awaiting_confirmation u) (awaiting_confirmation s),
        requires_human := set_if (u_requires_human u) (requires_human s),
        locked := set_if (u_locked u) (locked s),
        conversation_history := set_if (u_conversation_history u) (conversation_history s),
        last_intent_message := set_if (u_last_intent_message u) (last_intent_message s),
        last_activity := now \<rparr>"

definition update_session ::
  "SessionManager \<Rightarrow> string \<Rightarrow> session_update \<Rightarrow> real \<Rightarrow> SessionManager" where
  "update_session mgr sid u now =
     (case map_of (sessions mgr) sid of
        None \<Rightarrow> mgr
      | Some s \<Rightarrow> mgr\<lparr>sessions := dict_set sid (apply_update u now s) (sessions mgr)\<rparr>)"

text \<open>\<^verbatim>\<open>reset_session(session_id)\<close>: a falsy argument (\<^verbatim>\<open>None\<close> or "") resets every session.\<close>

definition reset_session :: "SessionManager \<Rightarrow> string option \<Rightarrow> SessionManager \<times> nat" where
  "reset_session mgr sid =
     (if truthy sid then
        (case map_of (sessions mgr) (str_of sid) of
           Some s \<Rightarrow> (mgr\<lparr>sessions := dict_del (str_of sid) (sessions mgr)\<rparr>, 1)
         | None \<Rightarrow> (mgr, 0))
      else (mgr\<lparr>sessions := []\<rparr>, length (sessions mgr)))"

text \<open>
  \<^verbatim>\<open>cleanup_expired_sessions\<close> at time \<open>now\<close>: the list comprehension collects the expired
  keys, the loop deletes them, the count of expired keys is returned.
\<close>

definition is_expired :: "SessionManager \<Rightarrow> real \<Rightarrow> SessionState \<Rightarrow> bool" where
  "is_expired mgr now s = (now - last_activity s > real_of_int (session_timeout mgr))"

definition expired_ids :: "SessionManager \<Rightarrow> real \<Rightarrow> string list" where
  "expired_ids mgr now = map fst (filter (\<lambda>p. is_expired mgr now (snd p)) (sessions mgr))"

definition cleanup_expired_sessions :: "SessionManager \<Rightarrow> real \<Rightarrow> SessionManager \<times> nat" where
  "cleanup_expired_sessions mgr now =
     (let expired = expired_ids mgr now
      in (mgr\<lparr>sessions := fold dict_del expired (sessions mgr)\<rparr>, length expired))"

section \<open>The agent graph (\<^verbatim>\<open>agents/\<close>)\<close>

subsection \<open>Turn state (\<^verbatim>\<open>agents/state.py\<close>)\<close>

text \<open>
  The \<^verbatim>\<open>metadata\<close> dictionary of the turn state. A key that is absent reads as \<^verbatim>\<open>None\<close>
  through \<^verbatim>\<open>.get\<close>: the flags are \<open>False\<close> then, \<open>auth\<close> and \<open>small_talk\<close> are \<open>None\<close>.
\<close>

record metadata =
  auth :: "auth_outcome option"
  md_awaiting_confirmation :: bool
  asked_for_confirmation :: bool
  lock_flow :: bool
  timestamp :: int
  small_talk :: "string option"
  force_reroute :: bool

definition empty_metadata :: metadata where
  "empty_metadata =
     \<lparr> auth = None, md_awaiting_confirmation = False, asked_for_confirmation = False,
       lock_flow = False, timestamp = 0, small_talk = None, force_reroute = False \<rparr>"

text \<open>The typed dictionary \<^verbatim>\<open>AgentState\<close>.\<close>

record AgentState =
  messages :: "message list"
  st_customer_id :: "string option"
  st_verified :: bool
  st_current_flow :: "string option"
  st_original_intent :: "string option"
  st_pending_action :: "pending_action option"
  st_session_id :: string
  st_requires_human :: bool
  st_metadata :: metadata

definition create_initial_state :: "string \<Rightarrow> AgentState" where
  "create_initial_state sid =
     \<lparr> messages = [], st_customer_id = None, st_verified = False, st_current_flow = None,
       st_original_intent = None, st_pending_action = None, st_session_id = sid,
       st_requires_human = False, st_metadata = empty_metadata \<rparr>"

text \<open>\<^verbatim>\<open>[msg for msg in state["messages"] if msg.type == "human"]\<close>, and the same for "ai".\<close>

fun human_contents :: "message list \<Rightarrow> string list" where
  "human_contents [] = []"
| "human_contents (HumanMessage c # rest) = c # human_contents rest"
| "human_contents (AIMessage c # rest) = human_contents rest"

fun ai_contents :: "message list \<Rightarrow> string list" where
  "ai_contents [] = []"
| "ai_contents (HumanMessage c # rest) = ai_contents rest"
| "ai_contents (AIMessage c # rest) = c # ai_contents rest"

fun content :: "message \<Rightarrow> string" where
  "content (HumanMessage c) = c"
| "content (AIMessage c) = c"

text \<open>\<^verbatim>\<open>xs[-1].content.lower() if xs else ""\<close>\<close>

definition last_lower :: "string list \<Rightarrow> string" where
  "last_lower xs = (if xs = [] then [] else lower (last xs))"

text \<open>\<^verbatim>\<open>str.strip()\<close>\<close>

definition strip :: "string \<Rightarrow> string" where
  "strip s = rev (dropWhile is_space (rev (dropWhile is_space s)))"

text \<open>\<^verbatim>\<open>str(n)\<close> for an integer.\<close>

fun str_nat :: "nat \<Rightarrow> string" where
  "str_nat n =
     (if n < 10 then [char_of (48 + n)] else str_nat (n div 10) @ [char_of (48 + n mod 10)])"

definition str_int :: "int \<Rightarrow> string" where
  "str_int i = (if i < 0 then CHR ''-'' # str_nat (nat (- i)) else str_nat (nat i))"

text \<open>Reading the \<^verbatim>\<open>auth\<close> dictionary of the metadata: \<^verbatim>\<open>metadata.get("auth", {}).get(key)\<close>.\<close>

definition auth_flag :: "(auth_outcome \<Rightarrow> bool) \<Rightarrow> AgentState \<Rightarrow> bool" where
  "auth_flag f state = (case auth (st_metadata state) of None \<Rightarrow> False | Some a \<Rightarrow> f a)"

definition auth_failed :: "AgentState \<Rightarrow> bool" where
  "auth_failed state = (auth_flag attempted state \<and> auth_flag (\<lambda>a. success a = Some False) state)"

definition auth_remaining :: "AgentState \<Rightarrow> int option" where
  "auth_remaining state =
     (case auth (st_metadata state) of None \<Rightarrow> None | Some a \<Rightarrow> remaining_attempts a)"

subsection \<open>Intent routing (\<^verbatim>\<open>agents/nodes/intent_router.py\<close>)\<close>

definition intent_keywords :: "string list" where
  "intent_keywords =
     [''card'', ''atm'', ''lost'', ''stolen'', ''declined'', ''cash not dispensed'',
      ''balance'', ''statement'', ''transaction'', ''profile'', ''address'', ''recent'',
      ''open account'', ''new account'', ''onboard'',
      ''login'', ''otp'', ''app'', ''device'', ''crash'',
      ''transfer'', ''bill pay'', ''beneficiary'', ''wire'', ''ach'',
      ''close account'', ''closure'', ''retain'']"

definition topic_change_keywords :: "string list" where
  "topic_change_keywords =
     [''actually'', ''instead'', ''never mind'', ''wait'', ''hold on'',
      ''let me'', ''i want to'', ''can you help me with something else'',
      ''different'', ''something else'']"

text \<open>\<^verbatim>\<open>\b(w1|w2|...)\b\<close>\<close>

definition word_alts :: "re list \<Rightarrow> re" where
  "word_alts rs = seqs [WordB, Group 1 (alts rs), WordB]"

text \<open>
  The small-talk buckets, tried in this order when the input has no intent keyword and no
  digit; the last pattern is \<^verbatim>\<open>\b(who are you|what are you|who made you|what (ai )?model)\b\<close>.
\<close>

definition small_talk_of :: "string \<Rightarrow> string option" where
  "small_talk_of latest_input =
     (if re_found False (word_alts (map lit [''hi'', ''hello'', ''hey'', ''good morning'',
            ''good afternoon'', ''good evening''])) latest_input
      then Some ''greeting''
      else if re_found False (word_alts (map lit [''thank you'', ''thanks'', ''thx'',
            ''appreciate''])) latest_input
      then Some ''thanks''
      else if re_found False (word_alts (map lit [''bye'', ''goodbye'', ''see you'',
            ''later''])) latest_input
      then Some ''goodbye''
      else if re_found False (word_alts (map lit [''what can you do'', ''help'', ''services'',
            ''capabilities''])) latest_input
      then Some ''help''
      else if re_found False (word_alts [lit ''who are you'', lit ''what are you'',
            lit ''who made you'',
            seqs [lit ''what '', Group 2 (Opt (lit ''ai '')), lit ''model'']]) latest_input
      then Some ''identity''
      else None)"

text \<open>The keyword categories of the fast routing, in the order of the \<^verbatim>\<open>if/elif\<close> chain.\<close>

definition keyword_flow :: "string \<Rightarrow> string option" where
  "keyword_flow latest_input =
     (if any_in [''card'', ''atm'', ''lost'', ''stolen'', ''declined'', ''cash not dispensed'']
           latest_input then Some ''card_issues''
      else if any_in [''balance'', ''statement'', ''transaction'', ''profile'', ''address'',
           ''recent''] latest_input then Some ''account_servicing''
      else if any_in [''open account'', ''new account'', ''onboard''] latest_input
      then Some ''account_opening''
      else if any_in [''login'', ''otp'', ''app'', ''device'', ''crash''] latest_input
      then Some ''digital_support''
      else if any_in [''transfer'', ''bill pay'', ''beneficiary'', ''wire'', ''ach'']
           latest_input then Some ''transfers''
      else if any_in [''close account'', ''closure'', ''retain''] latest_input
      then Some ''account_closure''
      else None)"

text \<open>Parsing the classifier's answer (already lowered).\<close>

definition llm_flow :: "string \<Rightarrow> string option" where
  "llm_flow response_text =
     (if contains ''card_issues'' response_text then Some ''card_issues''
      else if contains ''account_servicing'' response_text then Some ''account_servicing''
      else if contains ''account_opening'' response_text then Some ''account_opening''
      else if contains ''digital_support'' response_text then Some ''digital_support''
      else if contains ''transfers'' response_text then Some ''transfers''
      else if contains ''account_closure'' response_text then Some ''account_closure''
      else None)"

text \<open>
  \<^verbatim>\<open>route_intent\<close>. The external classifier is the parameter \<open>llm\<close>: it maps the content of
  the latest user message to the content of its answer.
\<close>

definition route_intent :: "(string \<Rightarrow> string) \<Rightarrow> AgentState \<Rightarrow> AgentState" where
  "route_intent llm state =
     (let user_messages = human_contents (messages state) in
      if user_messages = [] then state
      else
        let latest_input = strip (lower (last user_messages));
            has_intent_keywords = any_in intent_keywords latest_input;
            has_digits = list_ex is_digit latest_input;
            talk = (if \<not> has_intent_keywords \<and> \<not> has_digits
                    then small_talk_of latest_input else None)
        in
        if talk \<noteq> None then
          state\<lparr>st_current_flow := None,
                st_metadata := (st_metadata state)\<lparr>small_talk := talk\<rparr>\<rparr>
        else
          let meta = st_metadata state;
              current_flow = st_current_flow state
          in
          if truthy current_flow \<and> \<not> force_reroute meta
             \<and> \<not> any_in topic_change_keywords latest_input
          then state
          else if lock_flow meta \<or> (auth_flag attempted state \<and> truthy current_flow)
          then state
          else
            (case keyword_flow latest_input of
               Some flow \<Rightarrow> state\<lparr>st_current_flow := Some flow\<rparr>
             | None \<Rightarrow>
                 state\<lparr>st_current_flow := llm_flow (lower (llm (last user_messages)))\<rparr>))"

subsection \<open>External collaborators\<close>

text \<open>
  What the graph obtains from outside the repository's control: the identity check and the
  card blocking of the banking API, the language model's answer to the classification
  prompt, the outcomes of \<^verbatim>\<open>random.choice\<close> and \<^verbatim>\<open>random.randint\<close>, and, for the verified
  branch of the account handler, the reply text the banking API lookups produce together
  with the decision to escalate. Each is a total function here: a collaborator that raises
  aborts the request.
\<close>

record collaborators =
  verify_identity :: "string \<Rightarrow> string \<Rightarrow> bool"
  classify :: "string \<Rightarrow> string"
  block_card :: "string \<Rightarrow> string \<Rightarrow> string"
  random_choice :: nat
  random_int :: int
  account_service :: "string \<Rightarrow> string \<Rightarrow> string \<times> bool"

text \<open>The bullet character of the reply texts, as its UTF-8 bytes.\<close>

definition bullet :: string where
  "bullet = [CHR 0xE2, CHR 0x80, CHR 0xA2]"

subsection \<open>Authentication gate nodes (\<^verbatim>\<open>agents/nodes/auth_gate.py\<close>)\<close>

definition failed_auth_text :: "int option \<Rightarrow> string" where
  "failed_auth_text remaining =
     ''I couldn't verify your identity with those credentials. ''
     @ ''Please check your Customer ID and PIN and try again.''
     @ (case remaining of
          None \<Rightarrow> []
        | Some n \<Rightarrow> '' You have '' @ str_int n @ '' attempt(s) remaining.'')"

definition check_authentication :: "AgentState \<Rightarrow> AgentState" where
  "check_authentication state =
     (if st_verified state then state
      else if auth_flag auth_locked state then
        state\<lparr>messages := [AIMessage
                 (''For your security, I've locked verification after too many failed attempts. ''
                  @ ''I'll connect you with a specialist to complete this safely.'')],
              st_requires_human := True\<rparr>
      else if auth_failed state then
        state\<lparr>messages := [AIMessage (failed_auth_text (auth_remaining state))]\<rparr>
      else state)"

definition request_verification :: "AgentState \<Rightarrow> AgentState" where
  "request_verification state =
     (let prompt =
            (if auth_flag needs_pin state then ''Thanks. Please provide your 4-digit PIN.''
             else if auth_flag needs_customer_id state
             then ''Thanks. Please provide your 4-digit Customer ID.''
             else ''For security, I need to verify your identity before we proceed. ''
                  @ ''Please provide your Customer ID and your 4-digit PIN.'')
      in state\<lparr>messages := [AIMessage prompt]\<rparr>)"

subsection \<open>Conditional edges (\<^verbatim>\<open>agents/graph.py\<close>)\<close>

definition should_handle_small_talk :: "AgentState \<Rightarrow> string" where
  "should_handle_small_talk state =
     (if truthy (small_talk (st_metadata state)) then ''greeting'' else ''auth_gate'')"

definition should_request_auth :: "AgentState \<Rightarrow> string" where
  "should_request_auth state =
     (if auth_flag auth_locked state \<or> auth_failed state then ''end''
      else
        let sensitive = (st_current_flow state \<in> {Some ''card_issues'', Some ''account_servicing''})
        in if \<not> sensitive then ''route_by_intent''
           else if st_verified state then ''route_by_intent'' else ''request_auth'')"

definition route_to_flow :: "AgentState \<Rightarrow> string" where
  "route_to_flow state =
     (let current_flow = st_current_flow state in
      if current_flow = Some ''card_issues'' then ''card_flow''
      else if current_flow = Some ''account_servicing'' then ''account_flow''
      else if current_flow \<in> {Some ''account_opening'', Some ''digital_support'',
                                Some ''transfers'', Some ''account_closure''}
      then ''stub_flow''
      else ''stub_flow'')"

definition should_confirm :: "AgentState \<Rightarrow> string" where
  "should_confirm state =
     (case st_pending_action state of
        None \<Rightarrow> ''execute''
      | Some pending \<Rightarrow>
          if pa_type pending \<in> {''block_card'', ''close_account''} then
            (let meta = st_metadata state in
             if asked_for_confirmation meta then ''execute''
             else if md_awaiting_confirmation meta then ''confirm''
             else ''execute'')
          else ''execute'')"

definition route_by_intent :: "AgentState \<Rightarrow> AgentState" where
  "route_by_intent state = state"

subsection \<open>Confirmation (\<^verbatim>\<open>agents/nodes/confirmation.py\<close>)\<close>

datatype error = VerificationRequiredError string

text \<open>
  \<^verbatim>\<open>handle_confirmation\<close> returns the node's output and the calls it made to \<^verbatim>\<open>block_card\<close>,
  or raises.
\<close>

definition handle_confirmation ::
  "collaborators \<Rightarrow> AgentState \<Rightarrow> error + (AgentState \<times> (string \<times> string) list)" where
  "handle_confirmation ext state =
     (case st_pending_action state of
        None \<Rightarrow> Inr (state, [])
      | Some pending \<Rightarrow>
          if \<not> st_verified state
          then Inl (VerificationRequiredError ''Confirmation requires verification'')
          else
            let latest_input = last_lower (human_contents (messages state)) in
            if any_in [''yes'', ''confirm'', ''proceed'', ''sure''] latest_input then
              (let response =
                     (if pa_type pending = ''block_card''
                      then AIMessage (block_card ext (card_id pending) (reason pending))
                      else AIMessage ''Action completed successfully.'');
                   calls =
                     (if pa_type pending = ''block_card''
                      then [(card_id pending, reason pending)] else [])
               in Inr (state\<lparr>st_pending_action := None,
                              messages := [response],
                              st_metadata := (st_metadata state)
                                \<lparr>md_awaiting_confirmation := False,
                                 asked_for_confirmation := False\<rparr>\<rparr>,
                       calls))
            else if any_in [''no'', ''cancel'', ''stop'', ''wait''] latest_input then
              Inr (state\<lparr>st_pending_action := None,
                         messages := [AIMessage
                           (''Okay, I've cancelled the '' @ description pending @ ''. ''
                            @ ''Your card remains active. Is there anything else I can help with?'')],
                         st_metadata := (st_metadata state)
                           \<lparr>md_awaiting_confirmation := False,
                            asked_for_confirmation := False\<rparr>\<rparr>,
                   [])
            else
              Inr (state\<lparr>messages := [AIMessage
                           (''I need a clear confirmation. Do you want to ''
                            @ description pending @ ''? ''
                            @ ''Please say YES to proceed or NO to cancel.'')],
                         st_metadata := (st_metadata state)
                           \<lparr>md_awaiting_confirmation := True,
                            asked_for_confirmation := False\<rparr>\<rparr>,
                   []))"

subsection \<open>Card flow (\<^verbatim>\<open>agents/nodes/card_flow.py\<close>)\<close>

definition block_specific_card :: "AgentState \<Rightarrow> string \<Rightarrow> string \<Rightarrow> AgentState" where
  "block_specific_card state cid last4 =
     (let pending = \<lparr> pa_type = ''block_card'', card_id = cid, reason = ''lost'',
                       description = ''BLOCK your card ending in '' @ last4 \<rparr>;
          card_type = (if contains ''001'' cid then ''Debit'' else ''Credit'')
      in state\<lparr>st_pending_action := Some pending,
               messages := [AIMessage
                 (''I've found your '' @ card_type @ '' card ending in '' @ last4
                  @ ''. For your security, ''
                  @ ''blocking a card is PERMANENT and cannot be undone. ''
                  @ ''Are you sure you want to proceed and BLOCK this card?'')],
               st_metadata := (st_metadata state)
                 \<lparr>asked_for_confirmation := True, md_awaiting_confirmation := True\<rparr>\<rparr>)"

text \<open>
  \<^verbatim>\<open>handle_lost_card\<close> reads \<^verbatim>\<open>user_messages[-1]\<close>; its callers reach it only after they
  found a keyword in the latest user message, so that message exists.
\<close>

definition handle_lost_card :: "AgentState \<Rightarrow> AgentState" where
  "handle_lost_card state =
     (let latest_input = last_lower (human_contents (messages state)) in
      if contains ''debit'' latest_input \<or> contains ''0001'' latest_input
      then block_specific_card state ''CARD_001'' ''0001''
      else if contains ''credit'' latest_input \<or> contains ''9999'' latest_input
      then block_specific_card state ''CARD_999'' ''9999''
      else state\<lparr>messages := [AIMessage
             (''I'm sorry to hear that. I can help you block your card immediately. ''
              @ ''Which card is it? Your Debit card ending in 0001, ''
              @ ''or your Credit card ending in 9999?'')]\<rparr>)"

definition decline_reasons :: "string list" where
  "decline_reasons =
     [''insufficient funds'', ''incorrect PIN entered'', ''unusual activity detected'',
      ''expired card'']"

definition handle_declined_payment :: "collaborators \<Rightarrow> AgentState \<Rightarrow> AgentState" where
  "handle_declined_payment ext state =
     (let reason_text = decline_reasons ! (random_choice ext mod length decline_reasons)
      in state\<lparr>messages := [AIMessage
             (''I've checked your recent transactions. It looks like your last payment was declined ''
              @ ''due to '' @ reason_text
              @ ''. Would you like more details on how to resolve this?'')]\<rparr>)"

definition handle_atm_cash_not_dispensed :: "collaborators \<Rightarrow> AgentState \<Rightarrow> AgentState" where
  "handle_atm_cash_not_dispensed ext state =
     (let ref_number = ''ATM-'' @ str_int (random_int ext)
      in state\<lparr>messages := [AIMessage
             (''I'm sorry about this ATM issue. I've created a dispute case: '' @ ref_number
              @ ''\<newline>\<newline>What happens next:''
              @ ''\<newline>1. Our team reviews ATM logs within 24 hours''
              @ ''\<newline>2. If confirmed, we credit your account in 3-5 business days''
              @ ''\<newline>3. You'll receive email updates throughout''
              @ ''\<newline>\<newline>Is there anything else I can help with?'')]\<rparr>)"

definition card_auth_prompt :: "AgentState \<Rightarrow> string" where
  "card_auth_prompt state =
     (if auth_flag needs_pin state then ''Thanks. Please provide your 4-digit PIN.''
      else if auth_flag needs_customer_id state then ''Thanks. Please provide your Customer ID.''
      else ''I understand this is urgent, and I'm here to help you immediately. ''
           @ ''For your security, I'll need to verify your identity first. ''
           @ ''Could you please provide your Customer ID and your 4-digit PIN?'')"

definition handle_card_flow :: "collaborators \<Rightarrow> AgentState \<Rightarrow> AgentState" where
  "handle_card_flow ext state =
     (if \<not> st_verified state then
        (if auth_failed state
         then state\<lparr>messages := [AIMessage (failed_auth_text (auth_remaining state))]\<rparr>
         else state\<lparr>messages := [AIMessage (card_auth_prompt state)]\<rparr>)
      else if st_pending_action state \<noteq> None \<and> md_awaiting_confirmation (st_metadata state)
      then state
      else
        let last_assistant_msg = last_lower (ai_contents (messages state));
            latest_input = last_lower (human_contents (messages state))
        in
        if contains ''debit card ending'' last_assistant_msg
           \<or> contains ''credit card ending'' last_assistant_msg then
          (if contains ''debit'' latest_input \<or> contains ''0001'' latest_input
           then block_specific_card state ''CARD_001'' ''0001''
           else if contains ''credit'' latest_input \<or> contains ''9999'' latest_input
           then block_specific_card state ''CARD_999'' ''9999''
           else if any_in [''lost'', ''stolen'', ''missing'', ''block''] latest_input
           then state\<lparr>messages := [AIMessage
                  (''I understand you need to block a card. To help you quickly, ''
                   @ ''which card do you want to block - Debit or Credit?'')]\<rparr>
           else state\<lparr>messages := [AIMessage ''Which card - Debit or Credit?'']\<rparr>)
        else if contains ''lost or stolen card'' last_assistant_msg then
          (if any_in [''lost'', ''stolen'', ''missing'', ''block''] latest_input
           then handle_lost_card state
           else if any_in [''declined'', ''rejected'', ''not working''] latest_input
           then handle_declined_payment ext state
           else if any_in [''atm'', ''cash'', ''dispense''] latest_input
           then handle_atm_cash_not_dispensed ext state
           else state\<lparr>messages := [AIMessage
                  (''I didn't catch that. Are you calling about: ''
                   @ ''1) A lost or stolen card you need to block, ''
                   @ ''2) A declined payment, or 3) An ATM issue?'')]\<rparr>)
        else if any_in [''lost'', ''stolen'', ''missing'', ''block''] latest_input
        then handle_lost_card state
        else if any_in [''declined'', ''not working'', ''rejected''] latest_input
        then handle_declined_payment ext state
        else if any_in [''atm'', ''cash'', ''dispense''] latest_input
        then handle_atm_cash_not_dispensed ext state
        else state\<lparr>messages := [AIMessage
               (''I can help you with your Vaulta cards. ''
                @ ''Are you calling about a lost or stolen card, ''
                @ ''a declined payment, or an issue with an ATM?'')]\<rparr>)"

subsection \<open>Greeting, stub flows, account flow\<close>

definition agent_intro :: string where
  "agent_intro = ''I'm Alex, Vaulta Voice Assistant. ''"

definition handle_greeting :: "AgentState \<Rightarrow> AgentState" where
  "handle_greeting state =
     (let small_talk_type = small_talk (st_metadata state);
          response_text =
            (if small_talk_type = Some ''greeting'' then ''Hi! How can I help you today?''
             else if small_talk_type = Some ''thanks''
             then ''You're welcome! Is there anything else I can help with?''
             else if small_talk_type = Some ''goodbye''
             then ''Thank you for banking with Vaulta. Have a great day!''
             else if small_talk_type = Some ''help''
             then agent_intro @ ''I can help you with:\<newline>\<newline>''
                  @ bullet @ '' Check account balance\<newline>''
                  @ bullet @ '' View recent transactions\<newline>''
                  @ bullet @ '' Request statements\<newline>''
                  @ bullet @ '' Report lost or stolen cards\<newline>''
                  @ bullet @ '' Card declined issues\<newline>''
                  @ bullet @ '' General banking support\<newline>\<newline>''
                  @ ''What would you like to do?''
             else if small_talk_type = Some ''identity''
             then agent_intro
                  @ ''I'm designed specifically to help Vaulta customers with their ''
                  @ ''banking needs, using advanced AI technology. I can help you with ''
                  @ ''account inquiries, card services, and general banking questions. ''
                  @ ''How may I assist you today?''
             else ''I'm here to help with your banking needs. ''
                  @ ''What can I assist you with today?'')
      in state\<lparr>messages := [AIMessage response_text]\<rparr>)"

text \<open>The tables of \<^verbatim>\<open>agents/prompts.py\<close>.\<close>

definition STUB_FLOW_RESPONSES :: "(string \<times> string) list" where
  "STUB_FLOW_RESPONSES =
     [(''account_opening'',
       ''Thank you for your interest in Vaulta!\<newline>\<newline>''
       @ ''To open a new account, you can:\<newline>''
       @ ''1. Visit vaulta.com/apply\<newline>''
       @ ''2. Schedule an appointment at a branch\<newline>''
       @ ''3. Call our new accounts team at 1-800-VAULTA\<newline>\<newline>''
       @ ''Would you like me to send you the application link via SMS?''),
      (''digital_support'',
       ''I can help with app issues!\<newline>\<newline>''
       @ ''Common solutions:\<newline>''
       @ bullet @ '' Login problems: Reset password at vaulta.com/reset\<newline>''
       @ bullet @ '' OTP not received: Check spam, request new code\<newline>''
       @ bullet @ '' App crashes: Update to latest version\<newline>\<newline>''
       @ ''If these don't help, I'll transfer you to digital support.''),
      (''transfers'',
       ''I can assist with transfers and payments.\<newline>\<newline>''
       @ ''Currently, I can route you to:\<newline>''
       @ bullet @ '' Domestic Transfers (ACH/Wire)\<newline>''
       @ bullet @ '' International Payments\<newline>''
       @ bullet @ '' Bill Pay Support\<newline>''
       @ bullet @ '' Beneficiary Management\<newline>\<newline>''
       @ ''Which area do you need help with?''),
      (''account_closure'',
       ''We're sorry to hear you're considering closing your account.\<newline>\<newline>''
       @ ''To ensure this is handled correctly and to discuss alternatives that might ''
       @ ''better suit your needs, I'll need to connect you with our Account Specialist ''
       @ ''team.\<newline>\<newline>''
       @ ''Would you like to speak with them now?'')]"

definition GENERAL_HELP_RESPONSE :: string where
  "GENERAL_HELP_RESPONSE =
     ''I can help with account balances, recent transactions, statements, card issues, ''
     @ ''and general banking support.\<newline>''
     @ ''If you have a specific request, just tell me and I'll take care of it.''"

definition SMALL_TALK_RESPONSES :: "(string \<times> string) list" where
  "SMALL_TALK_RESPONSES =
     [(''greeting'', ''Hi! How can I help you today?''),
      (''thanks'', ''You're welcome! Is there anything else I can help with?''),
      (''goodbye'', ''Thanks for calling Vaulta. Have a great day!''),
      (''help'', ''I can help with balances, transactions, statements, card issues, ''
                 @ ''and general banking support. What would you like to do?'')]"

definition handle_stub_flow :: "AgentState \<Rightarrow> AgentState" where
  "handle_stub_flow state =
     (let talk = (case small_talk (st_metadata state) of
                    None \<Rightarrow> None
                  | Some k \<Rightarrow> map_of SMALL_TALK_RESPONSES k)
      in case talk of
           Some text \<Rightarrow>
             state\<lparr>messages := [AIMessage text],
                   st_metadata := (st_metadata state)\<lparr>small_talk := None\<rparr>\<rparr>
         | None \<Rightarrow>
             (let response_text =
                    (case st_current_flow state of
                       None \<Rightarrow> GENERAL_HELP_RESPONSE
                     | Some f \<Rightarrow>
                         (case map_of STUB_FLOW_RESPONSES f of
                            None \<Rightarrow> GENERAL_HELP_RESPONSE
                          | Some text \<Rightarrow> text))
              in state\<lparr>messages := [AIMessage response_text]\<rparr>))"

definition account_auth_prompt :: "AgentState \<Rightarrow> string" where
  "account_auth_prompt state =
     (if auth_flag needs_pin state then ''Thanks. Please provide your 4-digit PIN.''
      else if auth_flag needs_customer_id state then ''Thanks. Please provide your Customer ID.''
      else ''I'd be happy to help you check your account information. ''
           @ ''For your security, I'll need to verify your identity first. ''
           @ ''Could you please provide your Customer ID and your 4-digit PIN?'')"

text \<open>
  \<^verbatim>\<open>handle_account_flow\<close>. The unverified branch and the lookup of the customer id in the
  session store are as in the source. Past them the source dispatches on keywords of the
  latest input to handlers that query the banking API and format its answers; each of
  them returns the state with one new reply and, in some cases, \<^verbatim>\<open>requires_human\<close> set.
  That part is the collaborator \<open>account_service\<close>: from the customer id and the lowered
  latest input it gives the reply text and whether to escalate.
\<close>

definition handle_account_flow ::
  "collaborators \<Rightarrow> SessionManager \<Rightarrow> AgentState \<Rightarrow> AgentState" where
  "handle_account_flow ext mgr state =
     (if \<not> st_verified state then
        (if auth_failed state
         then state\<lparr>messages := [AIMessage (failed_auth_text (auth_remaining state))]\<rparr>
         else state\<lparr>messages := [AIMessage (account_auth_prompt state)]\<rparr>)
      else
        let cid = (case get_session mgr (st_session_id state) of
                     None \<Rightarrow> None
                   | Some session \<Rightarrow> customer_id session)
        in
        if \<not> truthy cid then
          state\<lparr>messages := [AIMessage
                  (''I'm having trouble verifying your account details. ''
                   @ ''I'll connect you with a specialist to complete this securely.'')],
                st_requires_human := True\<rparr>
        else
          let latest_input = last_lower (human_contents (messages state));
              reply = account_service ext (str_of cid) latest_input
          in state\<lparr>messages := [AIMessage (fst reply)],
                   st_requires_human := (if snd reply then True else st_requires_human state)\<rparr>)"

definition escalate_to_human :: "AgentState \<Rightarrow> AgentState" where
  "escalate_to_human state =
     state\<lparr>messages := [AIMessage
              (''I'll connect you with a specialist who can better assist with your request. ''
               @ ''Please hold for a moment...'')],
           st_requires_human := True\<rparr>"

subsection \<open>The compiled graph (\<^verbatim>\<open>build_agent_graph\<close>)\<close>

text \<open>
  A node receives the current state and returns a dictionary with every key of the state.
  The graph stores each returned value; for \<^verbatim>\<open>messages\<close>, declared with the reducer
  \<^verbatim>\<open>operator.add\<close>, it appends the returned list to the stored one.
\<close>

definition node_update :: "AgentState \<Rightarrow> AgentState \<Rightarrow> AgentState" where
  "node_update state out = out\<lparr>messages := messages state @ messages out\<rparr>"

text \<open>
  \<^verbatim>\<open>agent_graph.ainvoke\<close>: entry at \<^verbatim>\<open>intent_router\<close>, then the conditional edges. The result
  is the final state and the calls made to \<^verbatim>\<open>block_card\<close>, or the exception a node raised.
\<close>

definition agent_graph ::
  "collaborators \<Rightarrow> SessionManager \<Rightarrow> AgentState
     \<Rightarrow> error + (AgentState \<times> (string \<times> string) list)" where
  "agent_graph ext mgr input =
     (let s1 = node_update input (route_intent (classify ext) input) in
      if should_handle_small_talk s1 = ''greeting''
      then Inr (node_update s1 (handle_greeting s1), [])
      else
        let s2 = node_update s1 (check_authentication s1);
            edge = should_request_auth s2
        in
        if edge = ''end'' then Inr (s2, [])
        else if edge = ''request_auth'' then Inr (node_update s2 (request_verification s2), [])
        else
          let s3 = node_update s2 (route_by_intent s2);
              flow = route_to_flow s3
          in
          if flow = ''card_flow'' then
            (let s4 = node_update s3 (handle_card_flow ext s3) in
             if should_confirm s4 = ''confirm'' then
               (case handle_confirmation ext s4 of
                  Inl e \<Rightarrow> Inl e
                | Inr (out, calls) \<Rightarrow> Inr (node_update s4 out, calls))
             else Inr (s4, []))
          else if flow = ''account_flow''
          then Inr (node_update s3 (handle_account_flow ext mgr s3), [])
          else Inr (node_update s3 (handle_stub_flow s3), []))"

section \<open>The turn (\<^verbatim>\<open>api/vapi_routes.py\<close>)\<close>

text \<open>
  \<^verbatim>\<open>_process_auth_attempt(session, raw_text)\<close>: the extraction, then the gate above.
\<close>

definition process_auth_attempt ::
  "(string \<Rightarrow> string \<Rightarrow> bool) \<Rightarrow> int \<Rightarrow> SessionState \<Rightarrow> string
     \<Rightarrow> SessionState \<times> auth_outcome \<times> (string \<times> string) list" where
  "process_auth_attempt verify M session raw_text =
     process_auth_pair verify M session (extract_credentials raw_text)"

definition MAX_HISTORY_MESSAGES :: nat where
  "MAX_HISTORY_MESSAGES = 10"

text \<open>\<^verbatim>\<open>history[-MAX_HISTORY_MESSAGES:]\<close> when the history is longer.\<close>

definition recent_history :: "message list \<Rightarrow> message list" where
  "recent_history history =
     (if length history > MAX_HISTORY_MESSAGES
      then drop (length history - MAX_HISTORY_MESSAGES) history else history)"

text \<open>
  The condition under which \<^verbatim>\<open>_run_agent\<close> restores the flow saved in \<^verbatim>\<open>original_intent\<close>.
\<close>

definition restores_flow :: "SessionState \<Rightarrow> bool" where
  "restores_flow session =
     (truthy (original_intent session) \<and> verified session
      \<and> length (recent_history (conversation_history session)) \<le> 4)"

text \<open>
  The state \<^verbatim>\<open>_run_agent\<close> hands to the graph. \<open>hash\<close> is \<^verbatim>\<open>hash_customer_id\<close> (the first
  eight hex digits of SHA-256), taken as given; \<open>now\<close> is the clock.
\<close>

definition build_state ::
  "(string \<Rightarrow> string) \<Rightarrow> SessionState \<Rightarrow> string \<Rightarrow> string \<Rightarrow> auth_outcome \<Rightarrow> real
     \<Rightarrow> AgentState" where
  "build_state hash session sid sanitized_input a now =
     (let history = recent_history (conversation_history session);
          current_state = (create_initial_state sid)
            \<lparr>messages := history @ [HumanMessage sanitized_input],
             st_verified := verified session,
             st_customer_id :=
               (if truthy (customer_id session) then Some (hash (str_of (customer_id session)))
                else None),
             st_current_flow := current_flow session,
             st_original_intent := original_intent session,
             st_pending_action := pending_action session,
             st_requires_human := requires_human session\<rparr>
      in
      if restores_flow session then
        current_state
          \<lparr>st_current_flow := original_intent session,
           st_metadata :=
             \<lparr> auth = Some a, md_awaiting_confirmation = awaiting_confirmation session,
               asked_for_confirmation = False, lock_flow = True,
               timestamp = \<lfloor>now\<rfloor>, small_talk = None, force_reroute = False \<rparr>\<rparr>
      else
        current_state
          \<lparr>st_metadata :=
             \<lparr> auth = Some a, md_awaiting_confirmation = awaiting_confirmation session,
               asked_for_confirmation = False,
               lock_flow = (awaiting_confirmation session \<or> pending_action session \<noteq> None),
               timestamp = \<lfloor>now\<rfloor>, small_talk = None, force_reroute = False \<rparr>\<rparr>)"

text \<open>\<^verbatim>\<open>is_auth_request\<close>: the last message of the result names both "customer id" and "pin".\<close>

definition is_auth_request :: "AgentState \<Rightarrow> bool" where
  "is_auth_request result =
     (let last_message_content =
            (if messages result = [] then [] else content (last (messages result)))
      in contains ''customer id'' (lower last_message_content)
         \<and> contains ''pin'' (lower last_message_content))"

text \<open>The keyword arguments of the final \<^verbatim>\<open>update_session\<close> call of \<^verbatim>\<open>_run_agent\<close>.\<close>

definition result_update :: "AgentState \<Rightarrow> bool \<Rightarrow> session_update" where
  "result_update result session_locked =
     no_update
       \<lparr>u_verified := Some (st_verified result),
        u_current_flow := Some (st_current_flow result),
        u_pending_action := Some (st_pending_action result),
        u_awaiting_confirmation := Some (md_awaiting_confirmation (st_metadata result)),
        u_requires_human := Some (st_requires_human result),
        u_conversation_history := Some (messages result),
        u_locked := Some session_locked\<rparr>"

definition response_of :: "AgentState \<Rightarrow> string" where
  "response_of result =
     (let assistant_messages = ai_contents (messages result)
      in if assistant_messages = [] then ''I'm not sure how to respond to that.''
         else last assistant_messages)"

record agent_run =
  response :: string
  final_state :: AgentState
  block_calls :: "(string \<times> string) list"

text \<open>
  \<^verbatim>\<open>_run_agent\<close> with the graph as the parameter \<open>graph\<close>. The request is served at one
  reading \<open>now\<close> of the clock. The result is the store after the call and either the
  exception the graph raised or the response with the final state.
\<close>

definition run_agent_with ::
  "(SessionManager \<Rightarrow> AgentState \<Rightarrow> error + (AgentState \<times> (string \<times> string) list))
     \<Rightarrow> (string \<Rightarrow> string) \<Rightarrow> SessionManager \<Rightarrow> real \<Rightarrow> string \<Rightarrow> string \<Rightarrow> auth_outcome
     \<Rightarrow> SessionManager \<times> (error + agent_run)" where
  "run_agent_with graph hash mgr0 now sid sanitized_input a =
     (let (mgr1, session) = get_or_create_session mgr0 sid now;
          current_state = build_state hash session sid sanitized_input a now;
          mgr2 = (if restores_flow session
                  then update_session mgr1 sid (no_update\<lparr>u_original_intent := Some None\<rparr>) now
                  else mgr1)
      in
      case graph mgr2 current_state of
        Inl e \<Rightarrow> (mgr2, Inl e)
      | Inr (result, calls) \<Rightarrow>
          (let mgr3 = (if is_auth_request result \<and> truthy (st_current_flow result)
                          \<and> \<not> verified session
                       then update_session mgr2 sid
                              (no_update\<lparr>u_original_intent := Some (st_current_flow result)\<rparr>) now
                       else mgr2);
               mgr4 = update_session mgr3 sid (result_update result (locked session)) now
           in (mgr4, Inr \<lparr> response = response_of result, final_state = result,
                           block_calls = calls \<rparr>)))"

text \<open>The collaborators of a deployment: those of the graph, and \<^verbatim>\<open>hash_customer_id\<close>.\<close>

record deployment =
  ext :: collaborators
  hash_customer_id :: "string \<Rightarrow> string"
  max_auth_attempts :: int

definition run_agent ::
  "deployment \<Rightarrow> SessionManager \<Rightarrow> real \<Rightarrow> string \<Rightarrow> string \<Rightarrow> auth_outcome
     \<Rightarrow> SessionManager \<times> (error + agent_run)" where
  "run_agent d = run_agent_with (agent_graph (ext d)) (hash_customer_id d)"

datatype http_error = AgentExecutionFailed

record turn_result =
  store :: SessionManager
  reply :: "http_error + string"
  auth_result :: auth_outcome
  verify_calls :: "(string \<times> string) list"
  blocked :: "(string \<times> string) list"

text \<open>
  \<^verbatim>\<open>chat_completions\<close> for the session id \<open>sid\<close> and the latest user message \<open>raw\<close>, served
  at time \<open>now\<close>: the store afterwards, the response content or the HTTP 500 error, the
  \<^verbatim>\<open>auth\<close> dictionary of the turn, and the calls made to the verifier and to \<^verbatim>\<open>block_card\<close>.
\<close>

definition chat_completions ::
  "deployment \<Rightarrow> SessionManager \<Rightarrow> real \<Rightarrow> string \<Rightarrow> string \<Rightarrow> turn_result" where
  "chat_completions d mgr0 now sid raw_user_input =
     (let (mgr1, session0) = get_or_create_session mgr0 sid now;
          (session1, a, vcalls) =
            process_auth_attempt (verify_identity (ext d)) (max_auth_attempts d) session0
              raw_user_input;
          sanitized_input = redact_sensitive_text raw_user_input;
          auth_only = (attempted a \<or> needs_pin a \<or> needs_customer_id a);
          session2 = (if \<not> auth_only
                      then session1\<lparr>last_intent_message := Some sanitized_input\<rparr>
                      else session1);
          effective_input =
            (if auth_only \<and> truthy (last_intent_message session2)
             then str_of (last_intent_message session2) else sanitized_input);
          mgr2 = mgr1\<lparr>sessions := dict_set sid session2 (sessions mgr1)\<rparr>
      in
      case run_agent d mgr2 now sid effective_input a of
        (mgr3, Inl e) \<Rightarrow>
          \<lparr> store = mgr3, reply = Inl AgentExecutionFailed, auth_result = a,
            verify_calls = vcalls, blocked = [] \<rparr>
      | (mgr3, Inr r) \<Rightarrow>
          \<lparr> store = mgr3, reply = Inr (response r), auth_result = a,
            verify_calls = vcalls, blocked = block_calls r \<rparr>)"

text \<open>A sequence of requests \<open>(now, sid, raw)\<close>, served one after the other.\<close>

fun chat_seq ::
  "deployment \<Rightarrow> SessionManager \<Rightarrow> (real \<times> string \<times> string) list \<Rightarrow> SessionManager" where
  "chat_seq d mgr [] = mgr"
| "chat_seq d mgr ((now, sid, raw) # reqs) =
     chat_seq d (store (chat_completions d mgr now sid raw)) reqs"

text \<open>The session a turn works on, and the result of the gate on it.\<close>

definition turn_session :: "SessionManager \<Rightarrow> string \<Rightarrow> real \<Rightarrow> SessionState" where
  "turn_session mgr sid now = snd (get_or_create_session mgr sid now)"

definition turn_auth ::
  "deployment \<Rightarrow> SessionManager \<Rightarrow> real \<Rightarrow> string \<Rightarrow> string
     \<Rightarrow> SessionState \<times> auth_outcome \<times> (string \<times> string) list" where
  "turn_auth d mgr now sid raw =
     process_auth_attempt (verify_identity (ext d)) (max_auth_attempts d)
       (turn_session mgr sid now) raw"

text \<open>
  A deployment for concrete runs: the verifier knows the one customer of \<^verbatim>\<open>MOCK_CUSTOMERS\<close>
  (id 1111, PIN 2222), the classifier answers "unknown", the maximum is \<open>M\<close>.
\<close>

definition mock_deployment :: "int \<Rightarrow> deployment" where
  "mock_deployment M =
     \<lparr> ext = \<lparr> verify_identity = (\<lambda>c p. c = ''1111'' \<and> p = ''2222''),
               classify = (\<lambda>_. ''unknown''),
               block_card = (\<lambda>c r. ''SUCCESS: Card '' @ c @ '' has been permanently BLOCKED''),
               random_choice = 0, random_int = 123456,
               account_service = (\<lambda>c i. (''Your checking balance is $1,250.50.'', False)) \<rparr>,
       hash_customer_id = (\<lambda>c. ''0ffe1abd''),
       max_auth_attempts = M \<rparr>"

text \<open>
  A turn state in which a card block awaits the caller's answer \<open>reply_text\<close>: verified,
  in the card flow, \<^verbatim>\<open>awaiting_confirmation\<close> set before the turn began.
\<close>

definition awaiting_state :: "string \<Rightarrow> AgentState" where
  "awaiting_state reply_text =
     (create_initial_state ''caller'')
       \<lparr>messages := [HumanMessage reply_text],
        st_verified := True,
        st_current_flow := Some ''card_issues'',
        st_pending_action :=
          Some \<lparr> pa_type = ''block_card'', card_id = ''CARD_001'', reason = ''lost'',
                 description = ''BLOCK your card ending in 0001'' \<rparr>,
        st_metadata := empty_metadata\<lparr>md_awaiting_confirmation := True, lock_flow := True\<rparr>\<rparr>"

text \<open>A turn state already routed to the flow \<open>flow\<close>, with the new utterance \<open>utterance\<close>.\<close>

definition routed_state :: "string \<Rightarrow> string \<Rightarrow> AgentState" where
  "routed_state flow utterance =
     (create_initial_state ''caller'')
       \<lparr>messages := [HumanMessage utterance], st_current_flow := Some flow\<rparr>"




subsection \<open>A sample store, and the shape of a four-digit group\<close>

text \<open>
  A store with two sessions: "old" was last active at time 0, "fresh" at time 400; the
  timeout is 300 seconds.
\<close>

definition two_sessions :: SessionManager where
  "two_sessions =
     \<lparr> sessions = [(''old'', new_session ''old'' 0), (''fresh'', new_session ''fresh'' 400)],
       session_timeout = 300 \<rparr>"


section \<open>Properties\<close>

subsection \<open>The store and the graph: what a turn does to a session\<close>

lemma map_of_dict_set:
  "map_of (dict_set k v xs) k' = (if k' = k then Some v else map_of xs k')"
  by (induction xs) auto

lemma get_session_get_or_create:
  "get_session (fst (get_or_create_session mgr sid now)) sid' =
     (if sid' = sid then Some (snd (get_or_create_session mgr sid now)) else get_session mgr sid')"
  by (simp add: get_session_def get_or_create_session_def Let_def map_of_dict_set
           split: option.splits)

lemma snd_get_or_create:
  "snd (get_or_create_session mgr sid now) =
     (case get_session mgr sid of None \<Rightarrow> new_session sid now
      | Some s0 \<Rightarrow> s0\<lparr>last_activity := now\<rparr>)"
  by (simp add: get_session_def get_or_create_session_def Let_def split: option.splits)

lemma get_session_update_session:
  "get_session (update_session mgr sid u now) sid' =
     (if sid' = sid then map_option (apply_update u now) (get_session mgr sid)
      else get_session mgr sid')"
  by (simp add: get_session_def update_session_def map_of_dict_set split: option.splits)

lemma verified_route_intent [simp]: "st_verified (route_intent llm s) = st_verified s"
  by (simp add: route_intent_def Let_def split: option.splits)

lemma verified_node_update [simp]: "st_verified (node_update s out) = st_verified out"
  by (simp add: node_update_def)

lemma verified_check_authentication [simp]:
  "st_verified (check_authentication s) = st_verified s"
  by (simp add: check_authentication_def)

lemma verified_request_verification [simp]:
  "st_verified (request_verification s) = st_verified s"
  by (simp add: request_verification_def Let_def)

lemma verified_handle_greeting [simp]: "st_verified (handle_greeting s) = st_verified s"
  by (simp add: handle_greeting_def Let_def)

lemma verified_handle_stub_flow [simp]: "st_verified (handle_stub_flow s) = st_verified s"
  by (simp add: handle_stub_flow_def Let_def split: option.splits)

lemma verified_block_specific_card [simp]:
  "st_verified (block_specific_card s c l) = st_verified s"
  by (simp add: block_specific_card_def Let_def)

lemma verified_handle_lost_card [simp]: "st_verified (handle_lost_card s) = st_verified s"
  by (simp add: handle_lost_card_def Let_def)

lemma verified_handle_declined_payment [simp]:
  "st_verified (handle_declined_payment e s) = st_verified s"
  by (simp add: handle_declined_payment_def Let_def)

lemma verified_handle_atm [simp]:
  "st_verified (handle_atm_cash_not_dispensed e s) = st_verified s"
  by (simp add: handle_atm_cash_not_dispensed_def Let_def)

lemma verified_handle_card_flow [simp]: "st_verified (handle_card_flow e s) = st_verified s"
  by (simp add: handle_card_flow_def Let_def)

lemma verified_handle_account_flow [simp]:
  "st_verified (handle_account_flow e mgr s) = st_verified s"
  by (simp add: handle_account_flow_def Let_def)

lemma verified_handle_confirmation:
  "handle_confirmation e s = Inr (out, calls) \<Longrightarrow> st_verified out = st_verified s"
  by (auto simp: handle_confirmation_def Let_def split: option.splits if_splits)

lemma verified_agent_graph:
  "agent_graph e mgr s = Inr (out, calls) \<Longrightarrow> st_verified out = st_verified s"
  by (auto simp: agent_graph_def Let_def route_by_intent_def
           split: if_splits sum.splits dest: verified_handle_confirmation)


lemma build_state_verified [simp]:
  "st_verified (build_state h s sid inp a now) = verified s"
  by (simp add: build_state_def Let_def create_initial_state_def)

lemma apply_update_fields:
  "verified (apply_update u now s) = set_if (u_verified u) (verified s)"
  "locked (apply_update u now s) = set_if (u_locked u) (locked s)"
  "auth_attempts (apply_update u now s) =
     (if u_increment_auth_attempts u then auth_attempts s + 1 else auth_attempts s)"
  by (simp_all add: apply_update_def)

lemma run_agent_with_session:
  assumes present: "get_session mgr0 sid = Some s"
    and graph_ok: "\<And>m st out c. graph m st = Inr (out, c) \<Longrightarrow> st_verified out = st_verified st"
  shows "\<exists>s'. get_session (fst (run_agent_with graph h mgr0 now sid inp a)) sid = Some s'
           \<and> verified s' = verified s \<and> locked s' = locked s
           \<and> auth_attempts s' = auth_attempts s"
proof -
  let ?g = "get_or_create_session mgr0 sid now"
  let ?mgr1 = "fst ?g" and ?session = "snd ?g"
  have sess: "?session = s\<lparr>last_activity := now\<rparr>"
    using present by (simp add: snd_get_or_create)
  have g1: "get_session ?mgr1 sid = Some ?session"
    by (simp add: get_session_get_or_create)
  let ?mgr2 = "if restores_flow ?session
                  then update_session ?mgr1 sid (no_update\<lparr>u_original_intent := Some None\<rparr>) now
                  else ?mgr1"
  obtain s2 where g2: "get_session ?mgr2 sid = Some s2"
    and f2: "verified s2 = verified s" "locked s2 = locked s" "auth_attempts s2 = auth_attempts s"
    using g1 sess
    by (cases "restores_flow ?session")
       (auto simp: get_session_update_session apply_update_fields no_update_def set_if_def)
  let ?st = "build_state h ?session sid inp a now"
  show ?thesis
  proof (cases "graph ?mgr2 ?st")
    case (Inl e)
    then have "fst (run_agent_with graph h mgr0 now sid inp a) = ?mgr2"
      by (simp add: run_agent_with_def Let_def split_beta)
    then show ?thesis using g2 f2 by simp
  next
    case (Inr r)
    obtain result calls where r: "r = (result, calls)" by (cases r)
    have v: "st_verified result = verified s"
      using graph_ok[of ?mgr2 ?st result calls] Inr r sess by simp
    let ?mgr3 = "if is_auth_request result \<and> truthy (st_current_flow result) \<and> \<not> verified ?session
                 then update_session ?mgr2 sid
                        (no_update\<lparr>u_original_intent := Some (st_current_flow result)\<rparr>) now
                 else ?mgr2"
    obtain s3 where g3: "get_session ?mgr3 sid = Some s3"
      and f3: "verified s3 = verified s" "locked s3 = locked s" "auth_attempts s3 = auth_attempts s"
      using g2 f2
      by (cases "is_auth_request result \<and> truthy (st_current_flow result) \<and> \<not> verified ?session")
         (auto simp: get_session_update_session apply_update_fields no_update_def set_if_def)
    let ?mgr4 = "update_session ?mgr3 sid (result_update result (locked ?session)) now"
    have fin: "fst (run_agent_with graph h mgr0 now sid inp a) = ?mgr4"
      using Inr r by (simp add: run_agent_with_def Let_def split_beta)
    have "get_session ?mgr4 sid = Some (apply_update (result_update result (locked ?session)) now s3)"
      using g3 by (simp add: get_session_update_session)
    moreover have "verified (apply_update (result_update result (locked ?session)) now s3) = verified s"
      using v by (simp add: apply_update_fields result_update_def no_update_def set_if_def)
    moreover have "locked (apply_update (result_update result (locked ?session)) now s3) = locked s"
      using sess by (simp add: apply_update_fields result_update_def no_update_def set_if_def)
    moreover have "auth_attempts (apply_update (result_update result (locked ?session)) now s3)
                     = auth_attempts s"
      using f3 by (simp add: apply_update_fields result_update_def no_update_def)
    ultimately show ?thesis using fin by simp
  qed
qed

lemma run_agent_with_other:
  assumes "sid' \<noteq> sid"
  shows "get_session (fst (run_agent_with graph h mgr0 now sid inp a)) sid' = get_session mgr0 sid'"
  using assms
  by (auto simp: run_agent_with_def Let_def split_beta get_session_update_session
                 get_session_get_or_create
           split: sum.splits)


lemma run_agent_session:
  assumes "get_session mgr0 sid = Some s"
  shows "\<exists>s'. get_session (fst (run_agent d mgr0 now sid inp a)) sid = Some s'
           \<and> verified s' = verified s \<and> locked s' = locked s
           \<and> auth_attempts s' = auth_attempts s"
  unfolding run_agent_def
  by (rule run_agent_with_session[OF assms]) (rule verified_agent_graph)

lemma run_agent_other:
  "sid' \<noteq> sid \<Longrightarrow> get_session (fst (run_agent d mgr0 now sid inp a)) sid' = get_session mgr0 sid'"
  unfolding run_agent_def by (rule run_agent_with_other)


lemma chat_completions_session:
  "\<exists>s'. get_session (store (chat_completions d mgr now sid raw)) sid = Some s'
        \<and> verified s' = verified (fst (turn_auth d mgr now sid raw))
        \<and> locked s' = locked (fst (turn_auth d mgr now sid raw))
        \<and> auth_attempts s' = auth_attempts (fst (turn_auth d mgr now sid raw))"
proof -
  let ?g = "get_or_create_session mgr sid now"
  let ?r = "turn_auth d mgr now sid raw"
  let ?a = "fst (snd ?r)"
  let ?san = "redact_sensitive_text raw"
  let ?auth_only = "attempted ?a \<or> needs_pin ?a \<or> needs_customer_id ?a"
  let ?s2 = "if \<not> ?auth_only then (fst ?r)\<lparr>last_intent_message := Some ?san\<rparr> else fst ?r"
  let ?eff = "if ?auth_only \<and> truthy (last_intent_message ?s2)
              then str_of (last_intent_message ?s2) else ?san"
  let ?mgr2 = "(fst ?g)\<lparr>sessions := dict_set sid ?s2 (sessions (fst ?g))\<rparr>"
  have st: "store (chat_completions d mgr now sid raw) = fst (run_agent d ?mgr2 now sid ?eff ?a)"
    by (simp add: chat_completions_def turn_auth_def turn_session_def Let_def split_beta
             split: sum.splits)
  have g: "get_session ?mgr2 sid = Some ?s2"
    by (simp add: get_session_def map_of_dict_set)
  from run_agent_session[OF g, of d now ?eff ?a]
  obtain s' where "get_session (fst (run_agent d ?mgr2 now sid ?eff ?a)) sid = Some s'"
    "verified s' = verified ?s2" "locked s' = locked ?s2" "auth_attempts s' = auth_attempts ?s2"
    by blast
  then show ?thesis unfolding st by (intro exI[of _ s']) simp
qed

lemma chat_completions_other:
  assumes "sid' \<noteq> sid"
  shows "get_session (store (chat_completions d mgr now sid raw)) sid' = get_session mgr sid'"
proof -
  let ?g = "get_or_create_session mgr sid now"
  let ?r = "turn_auth d mgr now sid raw"
  let ?a = "fst (snd ?r)"
  let ?san = "redact_sensitive_text raw"
  let ?auth_only = "attempted ?a \<or> needs_pin ?a \<or> needs_customer_id ?a"
  let ?s2 = "if \<not> ?auth_only then (fst ?r)\<lparr>last_intent_message := Some ?san\<rparr> else fst ?r"
  let ?eff = "if ?auth_only \<and> truthy (last_intent_message ?s2)
              then str_of (last_intent_message ?s2) else ?san"
  let ?mgr2 = "(fst ?g)\<lparr>sessions := dict_set sid ?s2 (sessions (fst ?g))\<rparr>"
  have st: "store (chat_completions d mgr now sid raw) = fst (run_agent d ?mgr2 now sid ?eff ?a)"
    by (simp add: chat_completions_def turn_auth_def turn_session_def Let_def split_beta
             split: sum.splits)
  have "get_session ?mgr2 sid' = get_session (fst ?g) sid'"
    using assms by (simp add: get_session_def map_of_dict_set)
  also have "\<dots> = get_session mgr sid'"
    using assms by (simp add: get_session_get_or_create)
  finally show ?thesis unfolding st using assms by (simp add: run_agent_other)
qed

lemma turn_session_cases:
  "turn_session mgr sid now =
     (case get_session mgr sid of None \<Rightarrow> new_session sid now
      | Some s0 \<Rightarrow> s0\<lparr>last_activity := now\<rparr>)"
  by (simp add: turn_session_def snd_get_or_create)




lemma process_auth_pair_attempts_le:
  assumes "0 \<le> M" and "auth_attempts s \<le> M"
  shows "auth_attempts (fst (process_auth_pair verify M s cp)) \<le> M"
  using assms by (auto simp: process_auth_pair_def Let_def)



lemma new_session_fields [simp]:
  "\<not> locked (new_session sid now)" "\<not> verified (new_session sid now)"
  "auth_attempts (new_session sid now) = 0"
  by (simp_all add: new_session_def)



lemma chat_completions_attempts:
  assumes inv: "\<And>k s. get_session mgr k = Some s \<Longrightarrow> auth_attempts s \<le> max_auth_attempts d"
    and nonneg: "0 \<le> max_auth_attempts d"
    and "get_session (store (chat_completions d mgr now sid raw)) k = Some s'"
  shows "auth_attempts s' \<le> max_auth_attempts d"
proof (cases "k = sid")
  case True
  have "auth_attempts (turn_session mgr sid now) \<le> max_auth_attempts d"
    using inv[of sid] nonneg by (auto simp: turn_session_cases split: option.splits)
  then have "auth_attempts (fst (turn_auth d mgr now sid raw)) \<le> max_auth_attempts d"
    unfolding turn_auth_def process_auth_attempt_def
    by (rule process_auth_pair_attempts_le[OF nonneg])
  then show ?thesis
    using chat_completions_session[of d mgr now sid raw] assms(3) True by auto
next
  case False
  then show ?thesis using assms by (simp add: chat_completions_other)
qed

lemma chat_seq_attempts:
  assumes "\<And>k s. get_session mgr k = Some s \<Longrightarrow> auth_attempts s \<le> max_auth_attempts d"
    and "0 \<le> max_auth_attempts d"
    and "get_session (chat_seq d mgr reqs) k = Some s'"
  shows "auth_attempts s' \<le> max_auth_attempts d"
  using assms
proof (induction reqs arbitrary: mgr)
  case Nil
  then show ?case by simp
next
  case (Cons req reqs)
  obtain now sid0 raw where req: "req = (now, sid0, raw)" by (cases req)
  show ?case
  proof (rule Cons.IH[of "store (chat_completions d mgr now sid0 raw)"])
    show "\<And>k s. get_session (store (chat_completions d mgr now sid0 raw)) k = Some s
            \<Longrightarrow> auth_attempts s \<le> max_auth_attempts d"
      using chat_completions_attempts[of mgr d now sid0 raw] Cons.prems(1,2) by blast
    show "0 \<le> max_auth_attempts d" by (rule Cons.prems(2))
    show "get_session (chat_seq d (store (chat_completions d mgr now sid0 raw)) reqs) k = Some s'"
      using Cons.prems(3) by (simp add: req)
  qed
qed

lemma get_session_init [simp]: "get_session session_manager_init k = None"
  by (simp add: get_session_def session_manager_init_def)



subsection \<open>Concrete extractions used by the witnesses\<close>



lemma chat_seq_single:
  "chat_seq d mgr [(now, sid, raw)] = store (chat_completions d mgr now sid raw)"
  by simp

subsection \<open>Lock is terminal\<close>



subsection \<open>Failed-attempt accounting\<close>

text \<open>
  Claim C3. For an unverified session and a complete extracted pair: when the session is
  unlocked with attempts below the maximum and the verifier rejects the pair, the verifier
  was called once with that pair, the counter grows by exactly one, the reported remaining
  count is \<open>max 0 (M - attempts)\<close>, and the session (and the outcome) is locked exactly
  when that count is 0; when the session is locked or the counter has reached the maximum,
  the verifier is not called and the outcome is locked with success false, the counter
  unchanged; and with a non-negative maximum no session of a store reached from the empty
  store by turns has a counter beyond it.
\<close>

theorem failed_attempt_accounting:
  assumes run: "process_auth_pair verify M s (Some cid, Some pin) = (s', a, calls)"
    and unverified: "\<not> verified s"
    and complete: "cid \<noteq> []" "pin \<noteq> []"
  shows "(\<not> locked s \<and> auth_attempts s < M \<and> \<not> verify cid pin \<longrightarrow>
            calls = [(cid, pin)] \<and> success a = Some False
          \<and> auth_attempts s' = auth_attempts s + 1
          \<and> remaining_attempts a = Some (max 0 (M - auth_attempts s'))
          \<and> (locked s' \<longleftrightarrow> max 0 (M - auth_attempts s') = 0)
          \<and> (auth_locked a \<longleftrightarrow> max 0 (M - auth_attempts s') = 0))
       \<and> (locked s \<or> M \<le> auth_attempts s \<longrightarrow>
            calls = [] \<and> locked s' \<and> auth_locked a \<and> success a = Some False
          \<and> attempted a \<and> auth_attempts s' = auth_attempts s)
       \<and> (0 \<le> max_auth_attempts d \<longrightarrow>
            (\<forall>reqs k t. get_session (chat_seq d session_manager_init reqs) k = Some t
                \<longrightarrow> auth_attempts t \<le> max_auth_attempts d))"
proof -
  have tr: "truthy (Some cid)" "truthy (Some pin)"
    using complete by (simp_all add: truthy_def)
  have a: "\<not> locked s \<and> auth_attempts s < M \<and> \<not> verify cid pin \<longrightarrow>
            calls = [(cid, pin)] \<and> success a = Some False
          \<and> auth_attempts s' = auth_attempts s + 1
          \<and> remaining_attempts a = Some (max 0 (M - auth_attempts s'))
          \<and> (locked s' \<longleftrightarrow> max 0 (M - auth_attempts s') = 0)
          \<and> (auth_locked a \<longleftrightarrow> max 0 (M - auth_attempts s') = 0)"
    using run unverified tr
    by (auto simp: process_auth_pair_def Let_def str_of_def split: if_splits)
  have b: "locked s \<or> M \<le> auth_attempts s \<longrightarrow>
            calls = [] \<and> locked s' \<and> auth_locked a \<and> success a = Some False
          \<and> attempted a \<and> auth_attempts s' = auth_attempts s"
    using run unverified tr
    by (auto simp: process_auth_pair_def Let_def str_of_def)
  have c: "0 \<le> max_auth_attempts d \<longrightarrow>
            (\<forall>reqs k t. get_session (chat_seq d session_manager_init reqs) k = Some t
                \<longrightarrow> auth_attempts t \<le> max_auth_attempts d)"
    using chat_seq_attempts[of session_manager_init d] by simp
  from a b c show ?thesis by blast
qed

theorem failed_attempt_accounting_witness:
  "(let v = (\<lambda>c p. c = ''1111'' \<and> p = ''2222'');
        s = new_session ''s1'' 0;
        r = process_auth_pair v 3 s (Some ''1'', Some ''1000'');
        s3 = s\<lparr>auth_attempts := 3\<rparr>;
        r3 = process_auth_pair v 3 s3 (Some ''1111'', Some ''2222'')
    in \<not> verified s \<and> \<not> locked s \<and> auth_attempts s < 3 \<and> \<not> v ''1'' ''1000''
       \<and> snd (snd r) = [(''1'', ''1000'')] \<and> auth_attempts (fst r) = 1
       \<and> remaining_attempts (fst (snd r)) = Some 2 \<and> \<not> locked (fst r)
       \<and> 3 \<le> auth_attempts s3 \<and> v ''1111'' ''2222''
       \<and> snd (snd r3) = [] \<and> locked (fst r3) \<and> success (fst (snd r3)) = Some False
       \<and> (\<exists>t. get_session (chat_seq (mock_deployment 3) session_manager_init
                    [(0, ''caller'', ''id 1 pin 1000'')]) ''caller'' = Some t
              \<and> auth_attempts t \<le> 3))"
proof -
  let ?v = "\<lambda>c p. c = ''1111'' \<and> p = ''2222''"
  let ?s = "new_session ''s1'' 0"
  let ?s3 = "?s\<lparr>auth_attempts := 3\<rparr>"
  let ?r = "process_auth_pair ?v 3 ?s (Some ''1'', Some ''1000'')"
  let ?r3 = "process_auth_pair ?v 3 ?s3 (Some ''1111'', Some ''2222'')"
  let ?d = "mock_deployment 3"
  have run: "?r = (fst ?r, fst (snd ?r), snd (snd ?r))" by simp
  have run3: "?r3 = (fst ?r3, fst (snd ?r3), snd (snd ?r3))" by simp
  have pre: "\<not> verified ?s" "\<not> locked ?s" "auth_attempts ?s < 3" "\<not> ?v ''1'' ''1000''"
    by simp_all
  have pre3: "\<not> verified ?s3" "3 \<le> auth_attempts ?s3" "?v ''1111'' ''2222''"
    by simp_all
  have ne: "''1'' \<noteq> []" "''1000'' \<noteq> []" "''1111'' \<noteq> []" "''2222'' \<noteq> []" by simp_all
  note A = failed_attempt_accounting[OF run pre(1) ne(1) ne(2), of ?d]
  note B = failed_attempt_accounting[OF run3 pre3(1) ne(3) ne(4), of ?d]
  have a1: "snd (snd ?r) = [(''1'', ''1000'')]" "auth_attempts (fst ?r) = auth_attempts ?s + 1"
       "remaining_attempts (fst (snd ?r)) = Some (max 0 (3 - auth_attempts (fst ?r)))"
       "locked (fst ?r) \<longleftrightarrow> max 0 (3 - auth_attempts (fst ?r)) = 0"
    using A pre by blast+
  have a2: "auth_attempts (fst ?r) = 1" using a1(2) by simp
  have a3: "remaining_attempts (fst (snd ?r)) = Some 2" "\<not> locked (fst ?r)"
    using a1(3,4) a2 by simp_all
  have b1: "snd (snd ?r3) = []" "locked (fst ?r3)" "success (fst (snd ?r3)) = Some False"
    using B pre3 by blast+
  have m3: "0 \<le> max_auth_attempts ?d" "max_auth_attempts ?d = 3"
    by (simp_all add: mock_deployment_def)
  from chat_completions_session[of ?d session_manager_init 0 "''caller''" "''id 1 pin 1000''"]
  obtain t where t: "get_session (chat_seq ?d session_manager_init
                    [(0, ''caller'', ''id 1 pin 1000'')]) ''caller'' = Some t"
    by auto
  have "auth_attempts t \<le> 3"
    using A m3 t by (metis (no_types, lifting))
  with t have c1: "\<exists>t. get_session (chat_seq ?d session_manager_init
                    [(0, ''caller'', ''id 1 pin 1000'')]) ''caller'' = Some t
              \<and> auth_attempts t \<le> 3" by blast
  show ?thesis
    unfolding Let_def using pre pre3 a1(1) a2 a3 b1 c1 by blast
qed

subsection \<open>Cross-turn credential completion\<close>

lemma extract_solo_pin: "extract_credentials ''my pin is 1000'' = (None, Some ''1000'')"
  by code_simp

lemma extract_solo_id: "extract_credentials ''my id is 1'' = (Some ''1'', None)"
  by code_simp

text \<open>
  Claim C5, where it fails: a caller gives the PIN alone, then the id alone. The first turn
  sets \<^verbatim>\<open>needs_customer_id\<close> and leaves the session as it was (the PIN is not kept); the
  second sets \<^verbatim>\<open>needs_pin\<close>, attempts nothing and does not contact the verifier.
\<close>

theorem solo_pin_then_solo_id_counterexample:
  "needs_customer_id (fst (snd (process_auth_attempt (verify_identity (ext (mock_deployment 3))) 3
        (new_session ''caller'' 0) ''my pin is 1000'')))
   \<and> fst (process_auth_attempt (verify_identity (ext (mock_deployment 3))) 3
        (new_session ''caller'' 0) ''my pin is 1000'') = new_session ''caller'' 0
   \<and> \<not> attempted (fst (snd (process_auth_attempt (verify_identity (ext (mock_deployment 3))) 3
        (fst (process_auth_attempt (verify_identity (ext (mock_deployment 3))) 3
               (new_session ''caller'' 0) ''my pin is 1000''))
        ''my id is 1'')))
   \<and> needs_pin (fst (snd (process_auth_attempt (verify_identity (ext (mock_deployment 3))) 3
        (fst (process_auth_attempt (verify_identity (ext (mock_deployment 3))) 3
               (new_session ''caller'' 0) ''my pin is 1000''))
        ''my id is 1'')))
   \<and> snd (snd (process_auth_attempt (verify_identity (ext (mock_deployment 3))) 3
        (fst (process_auth_attempt (verify_identity (ext (mock_deployment 3))) 3
               (new_session ''caller'' 0) ''my pin is 1000''))
        ''my id is 1'')) = []"
  by (simp add: process_auth_attempt_def extract_solo_pin extract_solo_id process_auth_pair_def
        Let_def truthy_def new_session_def)

text \<open>
  Claim C5 as amended. For an unverified session and a non-empty value \<open>x\<close>: while an id is
  pending, a solo PIN \<open>x\<close> completes the pair with the pending id, and so does a solo
  id-shaped value \<open>x\<close>, which is taken as the PIN (the verifier is called with the pending id
  and \<open>x\<close> unless the session is locked or out of attempts); with no id pending, a solo id is
  stored as pending with \<^verbatim>\<open>needs_pin\<close> set, a solo PIN is not stored and sets
  \<^verbatim>\<open>needs_customer_id\<close>, and in both cases nothing is attempted and the verifier is not
  contacted.
\<close>

theorem credential_completion:
  assumes unverified: "\<not> verified s" and nonempty: "x \<noteq> []"
  shows "(truthy (pending_customer_id s) \<longrightarrow>
            attempted (fst (snd (process_auth_pair v M s (None, Some x))))
          \<and> attempted (fst (snd (process_auth_pair v M s (Some x, None))))
          \<and> (\<not> locked s \<and> auth_attempts s < M \<longrightarrow>
                snd (snd (process_auth_pair v M s (None, Some x)))
                  = [(str_of (pending_customer_id s), x)]
              \<and> snd (snd (process_auth_pair v M s (Some x, None)))
                  = [(str_of (pending_customer_id s), x)]))
       \<and> (\<not> truthy (pending_customer_id s) \<longrightarrow>
            process_auth_pair v M s (Some x, None)
              = (s\<lparr>pending_customer_id := Some x\<rparr>,
                 \<lparr> attempted = False, success = None, remaining_attempts = None,
                   auth_locked = locked s, needs_customer_id = False, needs_pin = True \<rparr>, [])
          \<and> process_auth_pair v M s (None, Some x)
              = (s, \<lparr> attempted = False, success = None, remaining_attempts = None,
                      auth_locked = locked s, needs_customer_id = True, needs_pin = False \<rparr>, []))"
  using assms by (auto simp: process_auth_pair_def Let_def truthy_def str_of_def)

theorem credential_completion_witness:
  "truthy (pending_customer_id
      (fst (process_auth_pair (verify_identity (ext (mock_deployment 3))) 3
              (new_session ''caller'' 0) (Some ''1111'', None))))
   \<and> snd (snd (process_auth_pair (verify_identity (ext (mock_deployment 3))) 3
        (fst (process_auth_pair (verify_identity (ext (mock_deployment 3))) 3
                (new_session ''caller'' 0) (Some ''1111'', None)))
        (None, Some ''2222''))) = [(''1111'', ''2222'')]
   \<and> needs_customer_id (fst (snd (process_auth_pair (verify_identity (ext (mock_deployment 3))) 3
        (new_session ''caller'' 0) (None, Some ''2222''))))"
proof -
  let ?v = "verify_identity (ext (mock_deployment 3))"
  let ?s0 = "new_session ''caller'' 0"
  have nv: "\<not> verified ?s0" and np: "\<not> truthy (pending_customer_id ?s0)"
    by (simp_all add: new_session_def truthy_def)
  have ne: "''1111'' \<noteq> []" "''2222'' \<noteq> []" by simp_all
  note A = credential_completion[OF nv ne(1), of ?v 3]
  note C = credential_completion[OF nv ne(2), of ?v 3]
  have first: "process_auth_pair ?v 3 ?s0 (Some ''1111'', None) =
                 (?s0\<lparr>pending_customer_id := Some ''1111''\<rparr>,
                  \<lparr> attempted = False, success = None, remaining_attempts = None,
                    auth_locked = locked ?s0, needs_customer_id = False, needs_pin = True \<rparr>, [])"
    using A np by blast
  let ?s1 = "?s0\<lparr>pending_customer_id := Some ''1111''\<rparr>"
  have nv1: "\<not> verified ?s1" and p1: "truthy (pending_customer_id ?s1)"
    and free: "\<not> locked ?s1 \<and> auth_attempts ?s1 < 3"
    by (simp_all add: new_session_def truthy_def)
  note B = credential_completion[OF nv1 ne(2), of ?v 3]
  have second: "snd (snd (process_auth_pair ?v 3 ?s1 (None, Some ''2222'')))
                  = [(str_of (pending_customer_id ?s1), ''2222'')]"
    using B p1 free by blast
  have third: "needs_customer_id (fst (snd (process_auth_pair ?v 3 ?s0 (None, Some ''2222''))))"
    using C np by simp
  show ?thesis
    using first second third p1 by (simp add: str_of_def)
qed

subsection \<open>Confirmation on an unverified state\<close>

text \<open>
  Claim C4. With a pending action and \<^verbatim>\<open>verified\<close> false the confirmation handler raises
  \<^verbatim>\<open>VerificationRequiredError\<close>: it returns no state, no reply and calls no action. And when
  the graph raises, for whatever reason, \<^verbatim>\<open>_run_agent\<close> passes the exception on and the
  unverified session is left as it was when the turn began, but for \<^verbatim>\<open>last_activity\<close>.
\<close>

theorem unverified_confirmation_raises:
  assumes pending: "st_pending_action st = Some p" and unverified: "\<not> st_verified st"
  shows "handle_confirmation e st
           = Inl (VerificationRequiredError ''Confirmation requires verification'')
       \<and> (get_session mgr sid = Some s \<and> \<not> verified s
            \<and> graph (fst (get_or_create_session mgr sid now))
                 (build_state h (s\<lparr>last_activity := now\<rparr>) sid inp a now) = Inl err
            \<longrightarrow> snd (run_agent_with graph h mgr now sid inp a) = Inl err
              \<and> get_session (fst (run_agent_with graph h mgr now sid inp a)) sid
                  = Some (s\<lparr>last_activity := now\<rparr>))"
proof -
  have raise: "handle_confirmation e st
                 = Inl (VerificationRequiredError ''Confirmation requires verification'')"
    using assms by (simp add: handle_confirmation_def)
  have pass: "snd (run_agent_with graph h mgr now sid inp a) = Inl err
              \<and> get_session (fst (run_agent_with graph h mgr now sid inp a)) sid
                  = Some (s\<lparr>last_activity := now\<rparr>)"
    if g: "get_session mgr sid = Some s" and nv: "\<not> verified s"
      and r: "graph (fst (get_or_create_session mgr sid now))
                 (build_state h (s\<lparr>last_activity := now\<rparr>) sid inp a now) = Inl err"
  proof -
    have sess: "snd (get_or_create_session mgr sid now) = s\<lparr>last_activity := now\<rparr>"
      using g by (simp add: snd_get_or_create)
    have nr: "\<not> restores_flow (s\<lparr>last_activity := now\<rparr>)"
      using nv by (simp add: restores_flow_def)
    have "run_agent_with graph h mgr now sid inp a = (fst (get_or_create_session mgr sid now), Inl err)"
      using r nr by (simp add: run_agent_with_def split_beta Let_def sess)
    then show ?thesis
      using sess by (simp add: get_session_get_or_create)
  qed
  from raise pass show ?thesis by blast
qed

theorem unverified_confirmation_raises_witness:
  "handle_confirmation (ext (mock_deployment 3)) ((awaiting_state ''yes'')\<lparr>st_verified := False\<rparr>)
     = Inl (VerificationRequiredError ''Confirmation requires verification'')
   \<and> st_pending_action ((awaiting_state ''yes'')\<lparr>st_verified := False\<rparr>) \<noteq> None
   \<and> get_session
        (fst (run_agent_with (\<lambda>m st. handle_confirmation (ext (mock_deployment 3)) st)
               (hash_customer_id (mock_deployment 3))
               \<lparr> sessions = [(''caller'', (new_session ''caller'' 0)
                     \<lparr>pending_action := st_pending_action (awaiting_state ''yes'')\<rparr>)],
                 session_timeout = 300 \<rparr>
               5 ''caller'' ''yes''
               \<lparr> attempted = False, success = None, remaining_attempts = None,
                 auth_locked = False, needs_customer_id = False, needs_pin = False \<rparr>))
        ''caller''
      = Some ((new_session ''caller'' 0)
                \<lparr>pending_action := st_pending_action (awaiting_state ''yes''),
                 last_activity := 5\<rparr>)"
proof -
  let ?e = "ext (mock_deployment 3)"
  let ?st = "(awaiting_state ''yes'')\<lparr>st_verified := False\<rparr>"
  let ?p = "\<lparr> pa_type = ''block_card'', card_id = ''CARD_001'', reason = ''lost'',
                 description = ''BLOCK your card ending in 0001'' \<rparr>"
  let ?s = "(new_session ''caller'' 0)\<lparr>pending_action := st_pending_action (awaiting_state ''yes'')\<rparr>"
  let ?mgr = "\<lparr> sessions = [(''caller'', ?s)], session_timeout = 300 \<rparr>"
  let ?a = "\<lparr> attempted = False, success = None, remaining_attempts = None,
                 auth_locked = False, needs_customer_id = False, needs_pin = False \<rparr>"
  let ?graph = "\<lambda>(m :: SessionManager) st. handle_confirmation ?e st"
  let ?h = "hash_customer_id (mock_deployment 3)"
  let ?err = "VerificationRequiredError ''Confirmation requires verification''"
  have pend: "st_pending_action ?st = Some ?p" and nv: "\<not> st_verified ?st"
    by (simp_all add: awaiting_state_def)
  note T = unverified_confirmation_raises[OF pend nv, of ?e ?mgr "''caller''" ?s ?graph 5 ?h
             "''yes''" ?a ?err]
  have g: "get_session ?mgr ''caller'' = Some ?s" by (simp add: get_session_def)
  have nvs: "\<not> verified ?s" by (simp add: new_session_def)
  have bp: "st_pending_action (build_state ?h (?s\<lparr>last_activity := 5\<rparr>) ''caller'' ''yes'' ?a 5) = Some ?p"
    "\<not> st_verified (build_state ?h (?s\<lparr>last_activity := 5\<rparr>) ''caller'' ''yes'' ?a 5)"
    by (simp_all add: build_state_def Let_def restores_flow_def awaiting_state_def new_session_def
          create_initial_state_def)
  have r: "?graph (fst (get_or_create_session ?mgr ''caller'' 5))
             (build_state ?h (?s\<lparr>last_activity := 5\<rparr>) ''caller'' ''yes'' ?a 5) = Inl ?err"
    using bp by (simp add: handle_confirmation_def)
  from T g nvs r
  have "get_session (fst (run_agent_with ?graph ?h ?mgr 5 ''caller'' ''yes'' ?a)) ''caller''
          = Some (?s\<lparr>last_activity := 5\<rparr>)"
    by simp
  moreover have "?s\<lparr>last_activity := 5\<rparr> = (new_session ''caller'' 0)
                \<lparr>pending_action := st_pending_action (awaiting_state ''yes''),
                 last_activity := 5\<rparr>" by simp
  ultimately show ?thesis using T pend by simp
qed

subsection \<open>The confirmation protocol\<close>










subsection \<open>Sticky routing\<close>

text \<open>
  Claim C7, where it fails: the session is in the account servicing flow and the caller says
  "thanks". The utterance has no topic-change phrase and no reroute is forced, but the
  small-talk check runs first: the flow is unset and the turn is marked as small talk.
\<close>

theorem small_talk_unsets_flow_counterexample:
  "truthy (st_current_flow (routed_state ''account_servicing'' ''thanks''))
   \<and> \<not> force_reroute (st_metadata (routed_state ''account_servicing'' ''thanks''))
   \<and> \<not> any_in topic_change_keywords (strip (lower ''thanks''))
   \<and> route_intent (classify (ext (mock_deployment 3))) (routed_state ''account_servicing'' ''thanks'')
       = (routed_state ''account_servicing'' ''thanks'')
           \<lparr>st_current_flow := None,
            st_metadata := empty_metadata\<lparr>small_talk := Some ''thanks''\<rparr>\<rparr>"
  by code_simp

text \<open>
  Claim C7 as amended. Let no reroute be forced and let the latest user message, lowered and
  stripped, contain no topic-change phrase. If the state has a current flow and the
  message is not small talk (it contains an intent keyword or a digit, or matches no
  small-talk pattern), intent routing returns the state as it is, whatever the classifier
  would answer. In particular this holds when the flow is "account_servicing" and the
  message contains "card".
\<close>

theorem sticky_routing:
  assumes no_force: "\<not> force_reroute (st_metadata st)"
    and latest: "latest = strip (lower (last (human_contents (messages st))))"
    and no_change: "\<not> any_in topic_change_keywords latest"
  shows "(truthy (st_current_flow st)
          \<and> (any_in intent_keywords latest \<or> list_ex is_digit latest
              \<or> small_talk_of latest = None)
          \<longrightarrow> route_intent llm st = st)
       \<and> (st_current_flow st = Some ''account_servicing'' \<and> contains ''card'' latest
          \<longrightarrow> route_intent llm st = st)"
proof -
  have general: "route_intent llm st = st"
    if "truthy (st_current_flow st)"
      and "any_in intent_keywords latest \<or> list_ex is_digit latest \<or> small_talk_of latest = None"
    using that no_force no_change latest
    by (auto simp: route_intent_def Let_def)
  have card: "any_in intent_keywords latest" if "contains ''card'' latest"
    using that by (simp add: any_in_def intent_keywords_def)
  have account: "truthy (st_current_flow st)" if "st_current_flow st = Some ''account_servicing''"
    using that by (simp add: truthy_def)
  from general card account show ?thesis by blast
qed

lemma latest_card_question:
  "strip (lower (last (human_contents (messages (routed_state ''account_servicing''
      ''What about my card?''))))) = ''what about my card?''"
  by code_simp

lemma card_question_facts:
  "\<not> any_in topic_change_keywords ''what about my card?''"
  "contains ''card'' ''what about my card?''"
  by code_simp+

theorem sticky_routing_witness:
  "route_intent (classify (ext (mock_deployment 3)))
     (routed_state ''account_servicing'' ''What about my card?'')
   = routed_state ''account_servicing'' ''What about my card?''
   \<and> st_current_flow (routed_state ''account_servicing'' ''What about my card?'')
       = Some ''account_servicing''
   \<and> contains ''card'' ''what about my card?''"
proof -
  let ?st = "routed_state ''account_servicing'' ''What about my card?''"
  have nf: "\<not> force_reroute (st_metadata ?st)"
    and fl: "st_current_flow ?st = Some ''account_servicing''"
    by (simp_all add: routed_state_def create_initial_state_def empty_metadata_def)
  note T = sticky_routing[OF nf latest_card_question[symmetric] card_question_facts(1),
             of "classify (ext (mock_deployment 3))"]
  from T fl card_question_facts(2) show ?thesis by blast
qed

subsection \<open>Flow restoration after authentication\<close>


lemma restores_flow_last_activity [simp]:
  "restores_flow (s\<lparr>last_activity := now\<rparr>) = restores_flow s"
  by (simp add: restores_flow_def)



lemma human_contents_append:
  "human_contents (xs @ ys) = human_contents xs @ human_contents ys"
  by (induction xs rule: human_contents.induct) simp_all


lemma build_state_has_human:
  "human_contents (messages (build_state h s sid inp a now)) \<noteq> []"
  by (simp add: build_state_def Let_def create_initial_state_def human_contents_append)








subsection \<open>The store keeps one entry per session id\<close>

lemma keys_dict_set:
  "map fst (dict_set k v xs) = (if k \<in> fst ` set xs then map fst xs else map fst xs @ [k])"
  by (induction xs) (auto simp: image_iff)

lemma distinct_keys_dict_set:
  "distinct (map fst xs) \<Longrightarrow> distinct (map fst (dict_set k v xs))"
  by (simp add: keys_dict_set)

lemma distinct_keys_get_or_create:
  "distinct (map fst (sessions mgr)) \<Longrightarrow>
   distinct (map fst (sessions (fst (get_or_create_session mgr sid now))))"
  by (simp add: get_or_create_session_def Let_def distinct_keys_dict_set split: option.splits)

lemma distinct_keys_update_session:
  "distinct (map fst (sessions mgr)) \<Longrightarrow>
   distinct (map fst (sessions (update_session mgr sid u now)))"
  by (simp add: update_session_def distinct_keys_dict_set split: option.splits)

lemma distinct_keys_run_agent_with:
  "distinct (map fst (sessions mgr)) \<Longrightarrow>
   distinct (map fst (sessions (fst (run_agent_with graph h mgr now sid inp a))))"
  by (auto simp: run_agent_with_def Let_def split_beta
        intro!: distinct_keys_update_session distinct_keys_get_or_create
        split: sum.splits)

lemma distinct_keys_chat_completions:
  assumes "distinct (map fst (sessions mgr))"
  shows "distinct (map fst (sessions (store (chat_completions d mgr now sid raw))))"
proof -
  have "distinct (map fst (sessions (fst (run_agent d mgr2 now sid inp a))))"
    if "distinct (map fst (sessions mgr2))" for mgr2 inp a
    unfolding run_agent_def using that by (rule distinct_keys_run_agent_with)
  moreover have "distinct (map fst (dict_set sid s
                    (sessions (fst (get_or_create_session mgr sid now)))))" for s
    using assms by (intro distinct_keys_dict_set distinct_keys_get_or_create)
  ultimately show ?thesis
    by (auto simp: chat_completions_def Let_def split_beta split: sum.splits prod.splits)
qed

lemma distinct_keys_chat_seq:
  "distinct (map fst (sessions mgr)) \<Longrightarrow> distinct (map fst (sessions (chat_seq d mgr reqs)))"
proof (induction reqs arbitrary: mgr)
  case Nil
  then show ?case by simp
next
  case (Cons r reqs)
  obtain now sid raw where r: "r = (now, sid, raw)" by (cases r)
  show ?case
    unfolding r chat_seq.simps
    by (rule Cons.IH) (rule distinct_keys_chat_completions[OF Cons.prems])
qed

lemma distinct_keys_served:
  "distinct (map fst (sessions (chat_seq d session_manager_init reqs)))"
  by (rule distinct_keys_chat_seq) (simp add: session_manager_init_def)

subsection \<open>Idle eviction\<close>

lemma dict_del_filter:
  "distinct (map fst xs) \<Longrightarrow> dict_del k xs = filter (\<lambda>p. fst p \<noteq> k) xs"
proof (induction xs)
  case Nil
  then show ?case by simp
next
  case (Cons p xs)
  have "filter (\<lambda>q. fst q \<noteq> k) xs = xs" if "k = fst p"
  proof (rule filter_True, rule ballI)
    fix q assume "q \<in> set xs"
    then have "fst q \<in> fst ` set xs" by (rule imageI)
    with Cons.prems that show "fst q \<noteq> k" by (auto simp: image_iff)
  qed
  with Cons show ?case by auto
qed

lemma distinct_keys_filter:
  "distinct (map fst xs) \<Longrightarrow> distinct (map fst (filter P xs))"
  by (simp add: distinct_map_filter)

lemma fold_dict_del:
  "distinct (map fst xs) \<Longrightarrow> fold dict_del ks xs = filter (\<lambda>p. fst p \<notin> set ks) xs"
proof (induction ks arbitrary: xs)
  case Nil
  then show ?case by simp
next
  case (Cons k ks)
  have "fold dict_del (k # ks) xs = fold dict_del ks (filter (\<lambda>p. fst p \<noteq> k) xs)"
    using Cons.prems by (simp add: dict_del_filter)
  also have "\<dots> = filter (\<lambda>p. fst p \<notin> set ks) (filter (\<lambda>p. fst p \<noteq> k) xs)"
    using Cons.prems by (intro Cons.IH distinct_keys_filter)
  also have "\<dots> = filter (\<lambda>p. fst p \<notin> set (k # ks)) xs"
    by (auto intro: filter_cong)
  finally show ?case .
qed

lemma expired_key_iff:
  assumes "distinct (map fst xs)" "p \<in> set xs"
  shows "fst p \<in> set (map fst (filter P xs)) \<longleftrightarrow> P p"
proof
  assume "fst p \<in> set (map fst (filter P xs))"
  then obtain q where q: "q \<in> set xs" "P q" "fst q = fst p" by auto
  with assms have "q = p"
    by (metis eq_key_imp_eq_value prod.collapse)
  with q show "P p" by simp
next
  assume "P p"
  with assms(2) show "fst p \<in> set (map fst (filter P xs))" by force
qed

lemma sweep_sessions:
  assumes "distinct (map fst (sessions mgr))"
  shows "sessions (fst (cleanup_expired_sessions mgr now))
           = filter (\<lambda>p. \<not> is_expired mgr now (snd p)) (sessions mgr)"
proof -
  have "fold dict_del (expired_ids mgr now) (sessions mgr)
          = filter (\<lambda>p. fst p \<notin> set (expired_ids mgr now)) (sessions mgr)"
    using assms by (rule fold_dict_del)
  also have "\<dots> = filter (\<lambda>p. \<not> is_expired mgr now (snd p)) (sessions mgr)"
    unfolding expired_ids_def
    using expired_key_iff[OF assms, of _ "\<lambda>p. is_expired mgr now (snd p)"]
    by (intro filter_cong) auto
  finally show ?thesis by (simp add: cleanup_expired_sessions_def Let_def)
qed

lemma map_of_filter_distinct:
  assumes "distinct (map fst xs)"
  shows "map_of (filter (\<lambda>p. Q (snd p)) xs) k =
           (case map_of xs k of None \<Rightarrow> None | Some v \<Rightarrow> if Q v then Some v else None)"
  using assms
proof (induction xs)
  case Nil
  then show ?case by simp
next
  case (Cons p xs)
  obtain k' v' where p: "p = (k', v')" by (cases p)
  have absent: "map_of (filter (\<lambda>p. Q (snd p)) xs) k' = None"
    using Cons.prems p
    by (auto simp: map_of_eq_None_iff image_iff)
  show ?case
    using Cons absent by (auto simp: p split: option.splits)
qed

text \<open>
  Claim C9. For a store with distinct session ids (as a dictionary has them) swept at time
  \<open>now\<close>: the count returned is the number of sessions whose last activity is older than
  the timeout, which is the number of sessions the store lost; each of them is gone, so
  that a \<^verbatim>\<open>get\<close> for its id returns none; every other session is still there, unchanged;
  and no session appears.
\<close>

theorem idle_eviction:
  assumes keys: "distinct (map fst (sessions mgr))"
    and sweep: "cleanup_expired_sessions mgr now = (mgr', n)"
  shows "n = length (filter (\<lambda>p. now - last_activity (snd p) > real_of_int (session_timeout mgr))
                       (sessions mgr))
       \<and> n = length (sessions mgr) - length (sessions mgr')
       \<and> (\<forall>sid s. get_session mgr sid = Some s
              \<and> now - last_activity s > real_of_int (session_timeout mgr)
            \<longrightarrow> get_session mgr' sid = None)
       \<and> (\<forall>sid s. get_session mgr sid = Some s
              \<and> \<not> now - last_activity s > real_of_int (session_timeout mgr)
            \<longrightarrow> get_session mgr' sid = Some s)
       \<and> (\<forall>sid. get_session mgr sid = None \<longrightarrow> get_session mgr' sid = None)"
proof -
  let ?E = "\<lambda>p. is_expired mgr now (snd p)"
  have n: "n = length (filter ?E (sessions mgr))"
    using sweep by (auto simp: cleanup_expired_sessions_def Let_def expired_ids_def)
  have s': "sessions mgr' = filter (\<lambda>p. \<not> ?E p) (sessions mgr)"
    using sweep_sessions[OF keys, of now] sweep by simp
  have len: "length (sessions mgr) = length (filter ?E (sessions mgr)) + length (sessions mgr')"
    unfolding s' by (rule sum_length_filter_compl[symmetric])
  have get: "get_session mgr' sid =
               (case get_session mgr sid of None \<Rightarrow> None
                | Some v \<Rightarrow> if \<not> is_expired mgr now v then Some v else None)" for sid
    unfolding get_session_def s'
    using map_of_filter_distinct[OF keys, of "\<lambda>v. \<not> is_expired mgr now v" sid] by simp
  show ?thesis
    using n len get by (auto simp: is_expired_def)
qed

theorem idle_eviction_witness:
  "distinct (map fst (sessions two_sessions))
   \<and> snd (cleanup_expired_sessions two_sessions 500) = 1
   \<and> get_session two_sessions ''old'' = Some (new_session ''old'' 0)
   \<and> 500 - last_activity (new_session ''old'' 0) > real_of_int (session_timeout two_sessions)
   \<and> get_session (fst (cleanup_expired_sessions two_sessions 500)) ''old'' = None
   \<and> get_session (fst (cleanup_expired_sessions two_sessions 500)) ''fresh''
       = Some (new_session ''fresh'' 400)
   \<and> get_session (fst (cleanup_expired_sessions two_sessions 500)) ''nobody'' = None"
proof -
  have keys: "distinct (map fst (sessions two_sessions))"
    by (simp add: two_sessions_def)
  have sweep: "cleanup_expired_sessions two_sessions 500
                 = (fst (cleanup_expired_sessions two_sessions 500),
                    snd (cleanup_expired_sessions two_sessions 500))" by simp
  note T = idle_eviction[OF keys sweep]
  have old: "get_session two_sessions ''old'' = Some (new_session ''old'' 0)"
    "500 - last_activity (new_session ''old'' 0) > real_of_int (session_timeout two_sessions)"
    by (simp_all add: two_sessions_def get_session_def new_session_def)
  have fresh: "get_session two_sessions ''fresh'' = Some (new_session ''fresh'' 400)"
    "\<not> 500 - last_activity (new_session ''fresh'' 400) > real_of_int (session_timeout two_sessions)"
    by (simp_all add: two_sessions_def get_session_def new_session_def)
  have nobody: "get_session two_sessions ''nobody'' = None"
    by (simp add: two_sessions_def get_session_def)
  have count: "snd (cleanup_expired_sessions two_sessions 500) = 1"
    using T by (simp add: two_sessions_def new_session_def)
  from T old have a: "get_session (fst (cleanup_expired_sessions two_sessions 500)) ''old'' = None"
    by blast
  from T fresh have b: "get_session (fst (cleanup_expired_sessions two_sessions 500)) ''fresh''
       = Some (new_session ''fresh'' 400)"
    by blast
  from T nobody have c: "get_session (fst (cleanup_expired_sessions two_sessions 500)) ''nobody'' = None"
    by blast
  from keys count old a b c show ?thesis by blast
qed

subsection \<open>Credential extractor: reference vectors\<close>

lemma vector_typed: "extract_credentials ''my id is 1 and pin is 1000'' = (Some ''1'', Some ''1000'')"
  by code_simp

lemma vector_spoken_normalized:
  "normalize_spoken_digits ''id is one and pin is one zero zero zero'' = ''id is 1 and pin is 1 0 0 0''"
  by code_simp

lemma vector_spoken:
  "extract_credentials ''id is one and pin is one zero zero zero'' = (Some ''1'', Some ''1000'')"
  by code_simp

lemma vector_truncated: "extract_credentials ''id 10 pin 123456'' = (Some ''10'', Some ''1234'')"
  by code_simp

lemma vector_none: "extract_credentials ''hello how are you'' = (None, None)"
  by code_simp

text \<open>
  Claim C6. The four reference vectors of the extractor, and the normalised form of the
  spoken one.
\<close>

theorem extractor_reference_vectors:
  "extract_credentials ''my id is 1 and pin is 1000'' = (Some ''1'', Some ''1000'')
   \<and> normalize_spoken_digits ''id is one and pin is one zero zero zero''
       = ''id is 1 and pin is 1 0 0 0''
   \<and> extract_credentials ''id is one and pin is one zero zero zero'' = (Some ''1'', Some ''1000'')
   \<and> extract_credentials ''id 10 pin 123456'' = (Some ''10'', Some ''1234'')
   \<and> extract_credentials ''hello how are you'' = (None, None)"
  using vector_typed vector_spoken_normalized vector_spoken vector_truncated vector_none
  by (intro conjI)

theorem extractor_reference_vectors_witness:
  "fst (extract_credentials ''id 10 pin 123456'') = Some ''10''
   \<and> snd (extract_credentials ''id 10 pin 123456'') = Some ''1234''
   \<and> fst (extract_credentials ''hello how are you'') = None"
  using extractor_reference_vectors by simp

subsection \<open>Redaction\<close>



















end
